theory Spec2Isabelle
  imports Main "HOL-Library.Word"
begin

section \<open>Diagnostics: errors and the statement context\<close>

text \<open>
  The errors of package \<^verbatim>\<open>types\<close> that \<^verbatim>\<open>builtin_cast.go\<close> names. An error value is
  its code together with the arguments of \<^verbatim>\<open>GenByArgs\<close>; \<^verbatim>\<open>X.Equal(err)\<close> compares
  the code only and is false on \<^verbatim>\<open>nil\<close>.
\<close>

datatype errcode =
    ErrOverflow
  | ErrTruncatedWrongVal
  | ErrTruncated
  | ErrCastNegIntAsUnsigned
  | ErrCastAsSignedOverflow
  | ErrDataTooLong
  | ErrIncorrectParameterCount
  | ErrInvalid

datatype error = Err errcode "string list"

fun Equal :: "errcode \<Rightarrow> error option \<Rightarrow> bool" where
  "Equal c None = False"
| "Equal c (Some (Err c' args)) = (c' = c)"

text \<open>
  Modelled from the spec: the statement context \<^verbatim>\<open>sc\<close> (package \<^verbatim>\<open>stmtctx\<close> is not
  part of the source file). The spec's diagnostics sink exposes append-warning,
  handle-overflow and handle-truncation (each recoverable or fatal per policy) and the
  lenient/SELECT context flag. \<open>InSelectStmt\<close> is the flag the source reads; the two
  policies of the sink are \<open>OverflowAsWarning\<close> and \<open>TruncateAsWarning\<close>.
\<close>

record StatementContext =
  InSelectStmt :: bool
  OverflowAsWarning :: bool
  TruncateAsWarning :: bool
  Warnings :: "error list"

definition AppendWarning :: "StatementContext \<Rightarrow> error \<Rightarrow> StatementContext" where
  "AppendWarning sc w = sc\<lparr>Warnings := Warnings sc @ [w]\<rparr>"

text \<open>
  Modelled from the spec: \<^verbatim>\<open>sc.HandleOverflow(err, warnErr)\<close>. No error stays no error;
  under the warning policy the warning is recorded and the error dropped; otherwise the
  error is returned and is fatal.
\<close>

fun HandleOverflow :: "StatementContext \<Rightarrow> error option \<Rightarrow> error \<Rightarrow> error option \<times> StatementContext" where
  "HandleOverflow sc None warnErr = (None, sc)"
| "HandleOverflow sc (Some e) warnErr =
     (if OverflowAsWarning sc then (None, AppendWarning sc warnErr) else (Some e, sc))"

text \<open>Modelled from the spec: \<^verbatim>\<open>sc.HandleTruncate(err)\<close>, the same for truncation.\<close>

fun HandleTruncate :: "StatementContext \<Rightarrow> error option \<Rightarrow> error option \<times> StatementContext" where
  "HandleTruncate sc None = (None, sc)"
| "HandleTruncate sc (Some e) =
     (if TruncateAsWarning sc then (None, AppendWarning sc e) else (Some e, sc))"

section \<open>The data model\<close>

text \<open>The evaluation classes of \<^verbatim>\<open>types.EvalType\<close> that the dispatchers switch on.\<close>

datatype EvalType =
  ETInt | ETReal | ETDecimal | ETString | ETDatetime | ETTimestamp | ETDuration | ETJson

text \<open>The type tags of package \<^verbatim>\<open>mysql\<close> that the source names.\<close>

datatype TypeTag =
    TypeDecimal | TypeLonglong | TypeDouble | TypeNewDecimal | TypeVarString | TypeString
  | TypeDate | TypeDatetime | TypeTimestamp | TypeDuration | TypeJSON

datatype FieldFlag = UnsignedFlag | BinaryFlag | IsBooleanFlag | ParseToJSONFlag

text \<open>\<^verbatim>\<open>types.FieldType\<close>: the target type \<^verbatim>\<open>b.tp\<close> of a cast.\<close>

record FieldType =
  Tp :: TypeTag
  Flag :: "FieldFlag set"
  Flen :: int
  Decimal :: int
  Charset :: string

definition HasUnsignedFlag :: "FieldFlag set \<Rightarrow> bool" where
  "HasUnsignedFlag flag = (UnsignedFlag \<in> flag)"

type_synonym int64 = "64 word"
type_synonym uint64 = "64 word"

definition MinInt64 :: int64 where
  "MinInt64 = word_of_int (- (2 ^ 63))"

definition MaxInt64 :: int64 where
  "MaxInt64 = word_of_int (2 ^ 63 - 1)"

definition MaxUint64 :: uint64 where
  "MaxUint64 = word_of_int (2 ^ 64 - 1)"

text \<open>
  \<^verbatim>\<open>types.Duration\<close>: nanoseconds and the fractional-second precision.
  \<open>ZeroDuration\<close> is the literal zero duration, which is also Go's zero value of the
  struct.
\<close>

record Duration =
  dur_Duration :: int
  dur_Fsp :: int

definition ZeroDuration :: Duration where
  "ZeroDuration = \<lparr>dur_Duration = 0, dur_Fsp = 0\<rparr>"

text \<open>\<^verbatim>\<open>types.Time\<close>: the calendar fields, the type tag and the precision.\<close>

record TimeInternal =
  Year :: nat
  Month :: nat
  Day :: nat
  Hour :: nat
  Minute :: nat
  Second :: nat
  Microsecond :: nat

record Time =
  Time_Time :: TimeInternal
  Time_Type :: TypeTag
  Time_Fsp :: int

definition FromDate :: "nat \<Rightarrow> nat \<Rightarrow> nat \<Rightarrow> nat \<Rightarrow> nat \<Rightarrow> nat \<Rightarrow> nat \<Rightarrow> TimeInternal" where
  "FromDate y m d h mi s us =
     \<lparr>Year = y, Month = m, Day = d, Hour = h, Minute = mi, Second = s, Microsecond = us\<rparr>"

text \<open>Go's zero value \<^verbatim>\<open>types.Time{}\<close>; the tag with value 0 is \<^verbatim>\<open>mysql.TypeDecimal\<close>.\<close>

definition ZeroTime :: Time where
  "ZeroTime = \<lparr>Time_Time = FromDate 0 0 0 0 0 0 0, Time_Type = TypeDecimal, Time_Fsp = 0\<rparr>"

text \<open>
  Modelled from the spec: \<^verbatim>\<open>types.MyDecimal\<close>, an arbitrary-precision fixed-point number:
  the value is \<open>dec_unscaled / 10 ^ dec_frac\<close>, so \<open>12.34\<close> is \<open>(1234, 2)\<close>.
\<close>

record MyDecimal =
  dec_unscaled :: int
  dec_frac :: nat

datatype RoundMode = ModeHalfEven | ModeTruncate

text \<open>
  What a routine returns: the value, the null flag, the error, and the statement context
  with the warnings appended so far.
\<close>

record 'a Outcome =
  out_res :: 'a
  out_isNull :: bool
  out_err :: "error option"
  out_sc :: StatementContext

definition Return :: "'a \<Rightarrow> bool \<Rightarrow> error option \<Rightarrow> StatementContext \<Rightarrow> 'a Outcome" where
  "Return r n e sc = \<lparr>out_res = r, out_isNull = n, out_err = e, out_sc = sc\<rparr>"

text \<open>
  The argument \<^verbatim>\<open>b.args[0]\<close> of a cast: what the dispatchers and routines ask of its
  declared type, and its views \<^verbatim>\<open>EvalInt\<close>, \<^verbatim>\<open>EvalString\<close>, ... on the current row, each
  a value, a null flag and an error. \<open>'j\<close> is \<^verbatim>\<open>json.BinaryJSON\<close> and \<open>'f\<close> is
  \<^verbatim>\<open>float64\<close>. \<^verbatim>\<open>EvalDecimal\<close> returns a pointer, which the routines read only when
  the view is neither null nor an error; the view carries the decimal it points to.
\<close>

record ('j, 'f) Expression =
  Hybrid :: bool
  GetEvalType :: EvalType
  GetFlag :: "FieldFlag set"
  IsBinaryLiteral :: bool
  EvalInt :: "int64 \<times> bool \<times> error option"
  EvalReal :: "'f \<times> bool \<times> error option"
  EvalDecimal :: "MyDecimal \<times> bool \<times> error option"
  EvalString :: "string \<times> bool \<times> error option"
  EvalTime :: "Time \<times> bool \<times> error option"
  EvalDuration :: "Duration \<times> bool \<times> error option"
  EvalJSON :: "'j \<times> bool \<times> error option"

section \<open>The dispatchers\<close>

text \<open>The 49 routines, named as their \<^verbatim>\<open>tipb.ScalarFuncSig\<close> codes.\<close>

datatype ScalarFuncSig =
    CastIntAsInt | CastIntAsReal | CastIntAsString | CastIntAsDecimal
  | CastIntAsTime | CastIntAsDuration | CastIntAsJson
  | CastRealAsInt | CastRealAsReal | CastRealAsString | CastRealAsDecimal
  | CastRealAsTime | CastRealAsDuration | CastRealAsJson
  | CastDecimalAsInt | CastDecimalAsReal | CastDecimalAsString | CastDecimalAsDecimal
  | CastDecimalAsTime | CastDecimalAsDuration | CastDecimalAsJson
  | CastStringAsInt | CastStringAsReal | CastStringAsString | CastStringAsDecimal
  | CastStringAsTime | CastStringAsDuration | CastStringAsJson
  | CastTimeAsInt | CastTimeAsReal | CastTimeAsString | CastTimeAsDecimal
  | CastTimeAsTime | CastTimeAsDuration | CastTimeAsJson
  | CastDurationAsInt | CastDurationAsReal | CastDurationAsString | CastDurationAsDecimal
  | CastDurationAsTime | CastDurationAsDuration | CastDurationAsJson
  | CastJsonAsInt | CastJsonAsReal | CastJsonAsString | CastJsonAsDecimal
  | CastJsonAsTime | CastJsonAsDuration | CastJsonAsJson

text \<open>
  A built routine: its code (which names the struct) and the target type \<^verbatim>\<open>bf.tp\<close>.
\<close>

record builtinFunc =
  pbCode :: ScalarFuncSig
  retTp :: FieldType

definition newSig :: "ScalarFuncSig \<Rightarrow> FieldType \<Rightarrow> error + builtinFunc" where
  "newSig code tp = Inr \<lparr>pbCode = code, retTp = tp\<rparr>"

text \<open>
  Modelled from the spec: \<^verbatim>\<open>baseFunctionClass.verifyArgs\<close> with the bounds \<open>1, 1\<close> that
  \<^verbatim>\<open>BuildCastFunction\<close> gives every cast class: exactly one argument, or an error.
\<close>

definition verifyArgs :: "'a list \<Rightarrow> error option" where
  "verifyArgs args = (if length args = 1 then None else Some (Err ErrIncorrectParameterCount [''cast'']))"

definition castAsInt_getFunction :: "FieldType \<Rightarrow> ('j, 'f) Expression list \<Rightarrow> error + builtinFunc" where
  "castAsInt_getFunction tp args =
     (case verifyArgs args of Some e \<Rightarrow> Inl e
      | None \<Rightarrow>
        if Hybrid (hd args) \<or> IsBinaryLiteral (hd args) then newSig CastIntAsInt tp
        else (case GetEvalType (hd args) of
                ETInt \<Rightarrow> newSig CastIntAsInt tp
              | ETReal \<Rightarrow> newSig CastRealAsInt tp
              | ETDecimal \<Rightarrow> newSig CastDecimalAsInt tp
              | ETDatetime \<Rightarrow> newSig CastTimeAsInt tp
              | ETTimestamp \<Rightarrow> newSig CastTimeAsInt tp
              | ETDuration \<Rightarrow> newSig CastDurationAsInt tp
              | ETJson \<Rightarrow> newSig CastJsonAsInt tp
              | ETString \<Rightarrow> newSig CastStringAsInt tp))"

definition castAsReal_getFunction :: "FieldType \<Rightarrow> ('j, 'f) Expression list \<Rightarrow> error + builtinFunc" where
  "castAsReal_getFunction tp args =
     (case verifyArgs args of Some e \<Rightarrow> Inl e
      | None \<Rightarrow>
        if IsBinaryLiteral (hd args) then newSig CastRealAsReal tp
        else (case (if Hybrid (hd args) then ETInt else GetEvalType (hd args)) of
                ETInt \<Rightarrow> newSig CastIntAsReal tp
              | ETReal \<Rightarrow> newSig CastRealAsReal tp
              | ETDecimal \<Rightarrow> newSig CastDecimalAsReal tp
              | ETDatetime \<Rightarrow> newSig CastTimeAsReal tp
              | ETTimestamp \<Rightarrow> newSig CastTimeAsReal tp
              | ETDuration \<Rightarrow> newSig CastDurationAsReal tp
              | ETJson \<Rightarrow> newSig CastJsonAsReal tp
              | ETString \<Rightarrow> newSig CastStringAsReal tp))"

definition castAsDecimal_getFunction :: "FieldType \<Rightarrow> ('j, 'f) Expression list \<Rightarrow> error + builtinFunc" where
  "castAsDecimal_getFunction tp args =
     (case verifyArgs args of Some e \<Rightarrow> Inl e
      | None \<Rightarrow>
        if IsBinaryLiteral (hd args) then newSig CastDecimalAsDecimal tp
        else (case (if Hybrid (hd args) then ETInt else GetEvalType (hd args)) of
                ETInt \<Rightarrow> newSig CastIntAsDecimal tp
              | ETReal \<Rightarrow> newSig CastRealAsDecimal tp
              | ETDecimal \<Rightarrow> newSig CastDecimalAsDecimal tp
              | ETDatetime \<Rightarrow> newSig CastTimeAsDecimal tp
              | ETTimestamp \<Rightarrow> newSig CastTimeAsDecimal tp
              | ETDuration \<Rightarrow> newSig CastDurationAsDecimal tp
              | ETJson \<Rightarrow> newSig CastJsonAsDecimal tp
              | ETString \<Rightarrow> newSig CastStringAsDecimal tp))"

definition castAsString_getFunction :: "FieldType \<Rightarrow> ('j, 'f) Expression list \<Rightarrow> error + builtinFunc" where
  "castAsString_getFunction tp args =
     (case verifyArgs args of Some e \<Rightarrow> Inl e
      | None \<Rightarrow>
        if Hybrid (hd args) \<or> IsBinaryLiteral (hd args) then newSig CastStringAsString tp
        else (case GetEvalType (hd args) of
                ETInt \<Rightarrow> newSig CastIntAsString tp
              | ETReal \<Rightarrow> newSig CastRealAsString tp
              | ETDecimal \<Rightarrow> newSig CastDecimalAsString tp
              | ETDatetime \<Rightarrow> newSig CastTimeAsString tp
              | ETTimestamp \<Rightarrow> newSig CastTimeAsString tp
              | ETDuration \<Rightarrow> newSig CastDurationAsString tp
              | ETJson \<Rightarrow> newSig CastJsonAsString tp
              | ETString \<Rightarrow> newSig CastStringAsString tp))"

definition castAsTime_getFunction :: "FieldType \<Rightarrow> ('j, 'f) Expression list \<Rightarrow> error + builtinFunc" where
  "castAsTime_getFunction tp args =
     (case verifyArgs args of Some e \<Rightarrow> Inl e
      | None \<Rightarrow>
        (case GetEvalType (hd args) of
           ETInt \<Rightarrow> newSig CastIntAsTime tp
         | ETReal \<Rightarrow> newSig CastRealAsTime tp
         | ETDecimal \<Rightarrow> newSig CastDecimalAsTime tp
         | ETDatetime \<Rightarrow> newSig CastTimeAsTime tp
         | ETTimestamp \<Rightarrow> newSig CastTimeAsTime tp
         | ETDuration \<Rightarrow> newSig CastDurationAsTime tp
         | ETJson \<Rightarrow> newSig CastJsonAsTime tp
         | ETString \<Rightarrow> newSig CastStringAsTime tp))"

definition castAsDuration_getFunction :: "FieldType \<Rightarrow> ('j, 'f) Expression list \<Rightarrow> error + builtinFunc" where
  "castAsDuration_getFunction tp args =
     (case verifyArgs args of Some e \<Rightarrow> Inl e
      | None \<Rightarrow>
        (case GetEvalType (hd args) of
           ETInt \<Rightarrow> newSig CastIntAsDuration tp
         | ETReal \<Rightarrow> newSig CastRealAsDuration tp
         | ETDecimal \<Rightarrow> newSig CastDecimalAsDuration tp
         | ETDatetime \<Rightarrow> newSig CastTimeAsDuration tp
         | ETTimestamp \<Rightarrow> newSig CastTimeAsDuration tp
         | ETDuration \<Rightarrow> newSig CastDurationAsDuration tp
         | ETJson \<Rightarrow> newSig CastJsonAsDuration tp
         | ETString \<Rightarrow> newSig CastStringAsDuration tp))"

definition castAsJSON_getFunction :: "FieldType \<Rightarrow> ('j, 'f) Expression list \<Rightarrow> error + builtinFunc" where
  "castAsJSON_getFunction tp args =
     (case verifyArgs args of Some e \<Rightarrow> Inl e
      | None \<Rightarrow>
        (case GetEvalType (hd args) of
           ETInt \<Rightarrow> newSig CastIntAsJson tp
         | ETReal \<Rightarrow> newSig CastRealAsJson tp
         | ETDecimal \<Rightarrow> newSig CastDecimalAsJson tp
         | ETDatetime \<Rightarrow> newSig CastTimeAsJson tp
         | ETTimestamp \<Rightarrow> newSig CastTimeAsJson tp
         | ETDuration \<Rightarrow> newSig CastDurationAsJson tp
         | ETJson \<Rightarrow> newSig CastJsonAsJson tp
         | ETString \<Rightarrow> newSig CastStringAsJson (tp\<lparr>Flag := Flag tp \<union> {ParseToJSONFlag}\<rparr>)))"

section \<open>Go's standard library: \<^verbatim>\<open>strings.TrimSpace\<close>, \<^verbatim>\<open>strconv.FormatInt\<close>\<close>

text \<open>
  A Go string is a sequence of bytes. \<^verbatim>\<open>strings.TrimSpace\<close> removes the leading and the
  trailing runes for which \<^verbatim>\<open>unicode.IsSpace\<close> holds; \<open>spaceRunes\<close> lists their UTF-8
  encodings.
\<close>

definition spaceRunes :: "string list" where
  "spaceRunes =
     [[CHR 0x09], [CHR 0x0A], [CHR 0x0B], [CHR 0x0C], [CHR 0x0D], [CHR 0x20],
      [CHR 0xC2, CHR 0x85], [CHR 0xC2, CHR 0xA0],
      [CHR 0xE1, CHR 0x9A, CHR 0x80],
      [CHR 0xE2, CHR 0x80, CHR 0x80], [CHR 0xE2, CHR 0x80, CHR 0x81],
      [CHR 0xE2, CHR 0x80, CHR 0x82], [CHR 0xE2, CHR 0x80, CHR 0x83],
      [CHR 0xE2, CHR 0x80, CHR 0x84], [CHR 0xE2, CHR 0x80, CHR 0x85],
      [CHR 0xE2, CHR 0x80, CHR 0x86], [CHR 0xE2, CHR 0x80, CHR 0x87],
      [CHR 0xE2, CHR 0x80, CHR 0x88], [CHR 0xE2, CHR 0x80, CHR 0x89],
      [CHR 0xE2, CHR 0x80, CHR 0x8A],
      [CHR 0xE2, CHR 0x80, CHR 0xA8], [CHR 0xE2, CHR 0x80, CHR 0xA9],
      [CHR 0xE2, CHR 0x80, CHR 0xAF], [CHR 0xE2, CHR 0x81, CHR 0x9F],
      [CHR 0xE3, CHR 0x80, CHR 0x80]]"

text \<open>The number of bytes of the space rune at the front of \<open>s\<close>, 0 when there is none.\<close>

definition leadingSpace :: "string list \<Rightarrow> string \<Rightarrow> nat" where
  "leadingSpace runes s =
     (case List.find (\<lambda>w. take (length w) s = w) runes of None \<Rightarrow> 0 | Some w \<Rightarrow> length w)"

fun trimLeft :: "string list \<Rightarrow> string \<Rightarrow> string" where
  "trimLeft runes [] = []"
| "trimLeft runes (c # cs) =
     (if leadingSpace runes (c # cs) = 0 then c # cs
      else trimLeft runes (drop (leadingSpace runes (c # cs) - 1) cs))"

definition TrimSpace :: "string \<Rightarrow> string" where
  "TrimSpace s = rev (trimLeft (map rev spaceRunes) (rev (trimLeft spaceRunes s)))"

text \<open>\<^verbatim>\<open>strconv.FormatUint(n, 10)\<close> and \<^verbatim>\<open>strconv.FormatInt(i, 10)\<close>: the decimal text.\<close>

definition digitChar :: "nat \<Rightarrow> char" where
  "digitChar d = ''0123456789'' ! (d mod 10)"

function FormatUint :: "nat \<Rightarrow> string" where
  "FormatUint n = (if n < 10 then [digitChar n] else FormatUint (n div 10) @ [digitChar (n mod 10)])"
  by pat_completeness auto
termination
  by (relation "measure (\<lambda>n. n)") auto

declare FormatUint.simps [simp del]

definition FormatInt :: "int \<Rightarrow> string" where
  "FormatInt i = (if i < 0 then CHR ''-'' # FormatUint (nat (- i)) else FormatUint (nat i))"

section \<open>Target Integer\<close>

text \<open>
  The functions of package \<^verbatim>\<open>types\<close> that a routine calls are not part of the source
  file; each routine takes them as parameters, named as in the source. Those that
  receive \<^verbatim>\<open>sc\<close> may append warnings and return the context with them.
\<close>

definition builtinCastIntAsIntSig_evalInt ::
  "('j, 'f) Expression \<Rightarrow> StatementContext \<Rightarrow> int64 Outcome" where
  "builtinCastIntAsIntSig_evalInt arg sc =
     (case EvalInt arg of (res, isNull, err) \<Rightarrow> Return res isNull err sc)"

text \<open>\<^verbatim>\<open>len(val) > 1 && val[0] == '-'\<close>\<close>

definition isNegative :: "string \<Rightarrow> bool" where
  "isNegative val = (length val > 1 \<and> val ! 0 = CHR ''-'')"

definition builtinCastStringAsIntSig_handleOverflow ::
  "StatementContext \<Rightarrow> int64 \<Rightarrow> string \<Rightarrow> error option \<Rightarrow> bool
     \<Rightarrow> int64 \<times> error option \<times> StatementContext" where
  "builtinCastStringAsIntSig_handleOverflow sc origRes origStr origErr isNeg =
     (case origErr of
        None \<Rightarrow> (origRes, None, sc)
      | Some e \<Rightarrow>
          if InSelectStmt sc \<and> Equal ErrOverflow origErr then
            (case HandleOverflow sc origErr (Err ErrTruncatedWrongVal [''INTEGER'', origStr]) of
               (err, sc') \<Rightarrow> (if isNeg then MinInt64 else MaxUint64, err, sc'))
          else (origRes, origErr, sc))"

definition builtinCastStringAsIntSig_evalInt ::
  "(StatementContext \<Rightarrow> string \<Rightarrow> int64 \<times> error option \<times> StatementContext)
   \<Rightarrow> (StatementContext \<Rightarrow> string \<Rightarrow> uint64 \<times> error option \<times> StatementContext)
   \<Rightarrow> FieldType \<Rightarrow> ('j, 'f) Expression \<Rightarrow> StatementContext \<Rightarrow> int64 Outcome" where
  "builtinCastStringAsIntSig_evalInt StrToInt StrToUint tp arg sc =
     (if Hybrid arg \<or> IsBinaryLiteral arg then
        (case EvalInt arg of (res, isNull, err) \<Rightarrow> Return res isNull err sc)
      else
        (case EvalString arg of (val0, isNull, err) \<Rightarrow>
          if isNull \<or> err \<noteq> None then Return 0 isNull err sc
          else
            let val = TrimSpace val0 in
            if isNegative val then
              (case StrToInt sc val of (res, err, sc1) \<Rightarrow>
                let sc2 = (if err = None then AppendWarning sc1 (Err ErrCastNegIntAsUnsigned [])
                           else sc1)
                in (case builtinCastStringAsIntSig_handleOverflow sc2 res val err True of
                      (res', err', sc3) \<Rightarrow> Return res' False err' sc3))
            else
              (case StrToUint sc val of (ures, err, sc1) \<Rightarrow>
                let sc2 = (if err = None \<and> \<not> HasUnsignedFlag (Flag tp) \<and> ures > MaxInt64
                           then AppendWarning sc1 (Err ErrCastAsSignedOverflow [])
                           else sc1)
                in (case builtinCastStringAsIntSig_handleOverflow sc2 ures val err False of
                      (res', err', sc3) \<Rightarrow> Return res' False err' sc3))))"

text \<open>
  \<^verbatim>\<open>val.Round(&to, 0, types.ModeHalfEven)\<close> fills \<open>to\<close> and returns the error;
  \<open>MyDecimal_String\<close> is the text that \<^verbatim>\<open>GenByArgs("DECIMAL", val)\<close> puts in the message.
\<close>

definition builtinCastDecimalAsIntSig_evalInt ::
  "(MyDecimal \<Rightarrow> int \<Rightarrow> RoundMode \<Rightarrow> MyDecimal \<times> error option)
   \<Rightarrow> (MyDecimal \<Rightarrow> uint64 \<times> error option)
   \<Rightarrow> (MyDecimal \<Rightarrow> int64 \<times> error option)
   \<Rightarrow> (MyDecimal \<Rightarrow> string)
   \<Rightarrow> FieldType \<Rightarrow> ('j, 'f) Expression \<Rightarrow> StatementContext \<Rightarrow> int64 Outcome" where
  "builtinCastDecimalAsIntSig_evalInt Round ToUint ToInt MyDecimal_String tp arg sc =
     (case EvalDecimal arg of (val, isNull, err) \<Rightarrow>
        if isNull \<or> err \<noteq> None then Return 0 isNull err sc
        else
          (case Round val 0 ModeHalfEven of (to, err) \<Rightarrow>
             if err \<noteq> None then Return 0 True err sc
             else
               (case (if HasUnsignedFlag (Flag tp) then ToUint to else ToInt to) of (res, err) \<Rightarrow>
                  if Equal ErrOverflow err then
                    (case HandleOverflow sc err
                            (Err ErrTruncatedWrongVal [''DECIMAL'', MyDecimal_String val]) of
                       (err', sc') \<Rightarrow> Return res False err' sc')
                  else Return res False err sc)))"

section \<open>Target String\<close>

definition builtinCastIntAsStringSig_evalString ::
  "(string \<Rightarrow> FieldType \<Rightarrow> StatementContext \<Rightarrow> string \<times> error option \<times> StatementContext)
   \<Rightarrow> (int64 \<Rightarrow> uint64 \<times> error option)
   \<Rightarrow> FieldType \<Rightarrow> ('j, 'f) Expression \<Rightarrow> StatementContext \<Rightarrow> string Outcome" where
  "builtinCastIntAsStringSig_evalString ProduceStrWithSpecifiedTp ConvertIntToUint tp arg sc =
     (case EvalInt arg of (val, isNull, err) \<Rightarrow>
        if isNull \<or> err \<noteq> None then Return [] isNull err sc
        else if \<not> HasUnsignedFlag (GetFlag arg) then
          (case ProduceStrWithSpecifiedTp (FormatInt (sint val)) tp sc of
             (res, err', sc') \<Rightarrow> Return res False err' sc')
        else
          (case ConvertIntToUint val of (uVal, err') \<Rightarrow>
             if err' \<noteq> None then Return [] False err' sc
             else
               (case ProduceStrWithSpecifiedTp (FormatUint (unat uVal)) tp sc of
                  (res, err'', sc') \<Rightarrow> Return res False err'' sc')))"

definition builtinCastDecimalAsStringSig_evalString ::
  "(string \<Rightarrow> FieldType \<Rightarrow> StatementContext \<Rightarrow> string \<times> error option \<times> StatementContext)
   \<Rightarrow> (MyDecimal \<Rightarrow> string)
   \<Rightarrow> FieldType \<Rightarrow> ('j, 'f) Expression \<Rightarrow> StatementContext \<Rightarrow> string Outcome" where
  "builtinCastDecimalAsStringSig_evalString ProduceStrWithSpecifiedTp ToString tp arg sc =
     (case EvalDecimal arg of (val, isNull, err) \<Rightarrow>
        if isNull \<or> err \<noteq> None then Return [] isNull err sc
        else
          (case ProduceStrWithSpecifiedTp (ToString val) tp sc of
             (res, err', sc') \<Rightarrow> Return res False err' sc'))"

definition builtinCastStringAsStringSig_evalString ::
  "(string \<Rightarrow> FieldType \<Rightarrow> StatementContext \<Rightarrow> string \<times> error option \<times> StatementContext)
   \<Rightarrow> FieldType \<Rightarrow> ('j, 'f) Expression \<Rightarrow> StatementContext \<Rightarrow> string Outcome" where
  "builtinCastStringAsStringSig_evalString ProduceStrWithSpecifiedTp tp arg sc =
     (case EvalString arg of (res, isNull, err) \<Rightarrow>
        if isNull \<or> err \<noteq> None then Return res isNull err sc
        else
          (case ProduceStrWithSpecifiedTp res tp sc of
             (res', err', sc') \<Rightarrow> Return res' False err' sc'))"

definition builtinCastTimeAsStringSig_evalString ::
  "(string \<Rightarrow> FieldType \<Rightarrow> StatementContext \<Rightarrow> string \<times> error option \<times> StatementContext)
   \<Rightarrow> (Time \<Rightarrow> string)
   \<Rightarrow> FieldType \<Rightarrow> ('j, 'f) Expression \<Rightarrow> StatementContext \<Rightarrow> string Outcome" where
  "builtinCastTimeAsStringSig_evalString ProduceStrWithSpecifiedTp Time_String tp arg sc =
     (case EvalTime arg of (val, isNull, err) \<Rightarrow>
        if isNull \<or> err \<noteq> None then Return [] isNull err sc
        else
          (case ProduceStrWithSpecifiedTp (Time_String val) tp sc of
             (res, err', sc') \<Rightarrow> Return res False err' sc'))"

definition builtinCastDurationAsStringSig_evalString ::
  "(string \<Rightarrow> FieldType \<Rightarrow> StatementContext \<Rightarrow> string \<times> error option \<times> StatementContext)
   \<Rightarrow> (Duration \<Rightarrow> string)
   \<Rightarrow> FieldType \<Rightarrow> ('j, 'f) Expression \<Rightarrow> StatementContext \<Rightarrow> string Outcome" where
  "builtinCastDurationAsStringSig_evalString ProduceStrWithSpecifiedTp Duration_String tp arg sc =
     (case EvalDuration arg of (val, isNull, err) \<Rightarrow>
        if isNull \<or> err \<noteq> None then Return [] isNull err sc
        else
          (case ProduceStrWithSpecifiedTp (Duration_String val) tp sc of
             (res, err', sc') \<Rightarrow> Return res False err' sc'))"

text \<open>\<open>JSON_String\<close> is \<^verbatim>\<open>val.String()\<close>, the serialization of the JSON value.\<close>

definition builtinCastJSONAsStringSig_evalString ::
  "('j \<Rightarrow> string)
   \<Rightarrow> FieldType \<Rightarrow> ('j, 'f) Expression \<Rightarrow> StatementContext \<Rightarrow> string Outcome" where
  "builtinCastJSONAsStringSig_evalString JSON_String tp arg sc =
     (case EvalJSON arg of (val, isNull, err) \<Rightarrow>
        if isNull \<or> err \<noteq> None then Return [] isNull err sc
        else Return (JSON_String val) False None sc)"

section \<open>Target Decimal\<close>

text \<open>A decimal result is a pointer: \<open>None\<close> is \<^verbatim>\<open>nil\<close>.\<close>

definition builtinCastDecimalAsDecimalSig_evalDecimal ::
  "(MyDecimal \<Rightarrow> FieldType \<Rightarrow> StatementContext
      \<Rightarrow> MyDecimal option \<times> error option \<times> StatementContext)
   \<Rightarrow> FieldType \<Rightarrow> ('j, 'f) Expression \<Rightarrow> StatementContext \<Rightarrow> MyDecimal option Outcome" where
  "builtinCastDecimalAsDecimalSig_evalDecimal ProduceDecWithSpecifiedTp tp arg sc =
     (case EvalDecimal arg of (evalDecimal, isNull, err) \<Rightarrow>
        if isNull \<or> err \<noteq> None then Return None isNull err sc
        else
          (case ProduceDecWithSpecifiedTp evalDecimal tp sc of
             (res, err', sc') \<Rightarrow> Return res False err' sc'))"

definition builtinCastStringAsDecimalSig_evalDecimal ::
  "(MyDecimal \<Rightarrow> FieldType \<Rightarrow> StatementContext
      \<Rightarrow> MyDecimal option \<times> error option \<times> StatementContext)
   \<Rightarrow> (string \<Rightarrow> MyDecimal \<times> error option)
   \<Rightarrow> FieldType \<Rightarrow> ('j, 'f) Expression \<Rightarrow> StatementContext \<Rightarrow> MyDecimal option Outcome" where
  "builtinCastStringAsDecimalSig_evalDecimal ProduceDecWithSpecifiedTp FromString tp arg sc =
     (if IsBinaryLiteral arg then
        (case EvalDecimal arg of (res, isNull, err) \<Rightarrow> Return (Some res) isNull err sc)
      else
        (case EvalString arg of (val, isNull, err) \<Rightarrow>
           if isNull \<or> err \<noteq> None then Return None isNull err sc
           else
             (case FromString val of (res, ferr) \<Rightarrow>
                (case HandleTruncate sc ferr of (err', sc1) \<Rightarrow>
                   if err' \<noteq> None then Return (Some res) False err' sc1
                   else
                     (case ProduceDecWithSpecifiedTp res tp sc1 of
                        (res', err'', sc') \<Rightarrow> Return res' False err'' sc')))))"

definition builtinCastTimeAsDecimalSig_evalDecimal ::
  "(MyDecimal \<Rightarrow> FieldType \<Rightarrow> StatementContext
      \<Rightarrow> MyDecimal option \<times> error option \<times> StatementContext)
   \<Rightarrow> (Time \<Rightarrow> MyDecimal)
   \<Rightarrow> FieldType \<Rightarrow> ('j, 'f) Expression \<Rightarrow> StatementContext \<Rightarrow> MyDecimal option Outcome" where
  "builtinCastTimeAsDecimalSig_evalDecimal ProduceDecWithSpecifiedTp Time_ToNumber tp arg sc =
     (case EvalTime arg of (val, isNull, err) \<Rightarrow>
        if isNull \<or> err \<noteq> None then Return None isNull err sc
        else
          (case ProduceDecWithSpecifiedTp (Time_ToNumber val) tp sc of
             (res, err', sc') \<Rightarrow> Return res False err' sc'))"

definition builtinCastDurationAsDecimalSig_evalDecimal ::
  "(MyDecimal \<Rightarrow> FieldType \<Rightarrow> StatementContext
      \<Rightarrow> MyDecimal option \<times> error option \<times> StatementContext)
   \<Rightarrow> (Duration \<Rightarrow> MyDecimal)
   \<Rightarrow> FieldType \<Rightarrow> ('j, 'f) Expression \<Rightarrow> StatementContext \<Rightarrow> MyDecimal option Outcome" where
  "builtinCastDurationAsDecimalSig_evalDecimal ProduceDecWithSpecifiedTp Duration_ToNumber tp arg sc =
     (case EvalDuration arg of (val, isNull, err) \<Rightarrow>
        if isNull \<or> err \<noteq> None then Return None isNull err sc
        else
          (case ProduceDecWithSpecifiedTp (Duration_ToNumber val) tp sc of
             (res, err', sc') \<Rightarrow> Return res False err' sc'))"

definition builtinCastJSONAsDecimalSig_evalDecimal ::
  "(StatementContext \<Rightarrow> 'j \<Rightarrow> 'f \<times> error option \<times> StatementContext)
   \<Rightarrow> ('f \<Rightarrow> MyDecimal \<times> error option)
   \<Rightarrow> FieldType \<Rightarrow> ('j, 'f) Expression \<Rightarrow> StatementContext \<Rightarrow> MyDecimal option Outcome" where
  "builtinCastJSONAsDecimalSig_evalDecimal ConvertJSONToFloat FromFloat64 tp arg sc =
     (case EvalJSON arg of (val, isNull, err) \<Rightarrow>
        if isNull \<or> err \<noteq> None then Return None isNull err sc
        else
          (case ConvertJSONToFloat sc val of (f64, err', sc1) \<Rightarrow>
             if err' = None then
               (case FromFloat64 f64 of (res, err'') \<Rightarrow> Return (Some res) False err'' sc1)
             else Return None False err' sc1))"

section \<open>Target Json\<close>

definition builtinCastJSONAsJSONSig_evalJSON ::
  "('j, 'f) Expression \<Rightarrow> StatementContext \<Rightarrow> 'j Outcome" where
  "builtinCastJSONAsJSONSig_evalJSON arg sc =
     (case EvalJSON arg of (res, isNull, err) \<Rightarrow> Return res isNull err sc)"

section \<open>Target DateTime\<close>

text \<open>
  \<^verbatim>\<open>res.Time = types.FromDate(res.Time.Year(), res.Time.Month(), res.Time.Day(), 0, 0, 0, 0)\<close>:
  the statement under the comment "Truncate hh:mm:ss part if the type is Date".
\<close>

definition truncateToDate :: "Time \<Rightarrow> Time" where
  "truncateToDate res =
     res\<lparr>Time_Time := FromDate (Year (Time_Time res)) (Month (Time_Time res))
                          (Day (Time_Time res)) 0 0 0 0\<rparr>"

definition timeOfDayIsZero :: "Time \<Rightarrow> bool" where
  "timeOfDayIsZero t =
     (Hour (Time_Time t) = 0 \<and> Minute (Time_Time t) = 0 \<and> Second (Time_Time t) = 0
      \<and> Microsecond (Time_Time t) = 0)"

definition builtinCastIntAsTimeSig_evalTime ::
  "(StatementContext \<Rightarrow> int64 \<Rightarrow> TypeTag \<Rightarrow> int \<Rightarrow> Time \<times> error option \<times> StatementContext)
   \<Rightarrow> FieldType \<Rightarrow> ('j, 'f) Expression \<Rightarrow> StatementContext \<Rightarrow> Time Outcome" where
  "builtinCastIntAsTimeSig_evalTime ParseTimeFromNum tp arg sc =
     (case EvalInt arg of (val, isNull, err) \<Rightarrow>
        if isNull \<or> err \<noteq> None then Return ZeroTime isNull err sc
        else
          (case ParseTimeFromNum sc val (Tp tp) (Decimal tp) of (res, perr, sc1) \<Rightarrow>
             if perr \<noteq> None then Return res True perr sc1
             else if Tp tp = TypeDate then Return (truncateToDate res) False None sc1
             else Return res False None sc1))"

definition builtinCastRealAsTimeSig_evalTime ::
  "(StatementContext \<Rightarrow> string \<Rightarrow> TypeTag \<Rightarrow> int \<Rightarrow> Time \<times> error option \<times> StatementContext)
   \<Rightarrow> ('f \<Rightarrow> string)
   \<Rightarrow> FieldType \<Rightarrow> ('j, 'f) Expression \<Rightarrow> StatementContext \<Rightarrow> Time Outcome" where
  "builtinCastRealAsTimeSig_evalTime ParseTime FormatFloat tp arg sc =
     (case EvalReal arg of (val, isNull, err) \<Rightarrow>
        if isNull \<or> err \<noteq> None then Return ZeroTime True err sc
        else
          (case ParseTime sc (FormatFloat val) (Tp tp) (Decimal tp) of (res, perr, sc1) \<Rightarrow>
             if perr \<noteq> None then Return ZeroTime True perr sc1
             else if Tp tp = TypeDate then Return (truncateToDate res) False None sc1
             else Return res False None sc1))"

definition builtinCastDecimalAsTimeSig_evalTime ::
  "(StatementContext \<Rightarrow> string \<Rightarrow> TypeTag \<Rightarrow> int \<Rightarrow> Time \<times> error option \<times> StatementContext)
   \<Rightarrow> (MyDecimal \<Rightarrow> string)
   \<Rightarrow> FieldType \<Rightarrow> ('j, 'f) Expression \<Rightarrow> StatementContext \<Rightarrow> Time Outcome" where
  "builtinCastDecimalAsTimeSig_evalTime ParseTime ToString tp arg sc =
     (case EvalDecimal arg of (val, isNull, err) \<Rightarrow>
        if isNull \<or> err \<noteq> None then Return ZeroTime isNull err sc
        else
          (case ParseTime sc (ToString val) (Tp tp) (Decimal tp) of (res, perr, sc1) \<Rightarrow>
             if perr \<noteq> None then Return res False perr sc1
             else if Tp tp = TypeDate then Return (truncateToDate res) False perr sc1
             else Return res False perr sc1))"

definition builtinCastStringAsTimeSig_evalTime ::
  "(StatementContext \<Rightarrow> string \<Rightarrow> TypeTag \<Rightarrow> int \<Rightarrow> Time \<times> error option \<times> StatementContext)
   \<Rightarrow> FieldType \<Rightarrow> ('j, 'f) Expression \<Rightarrow> StatementContext \<Rightarrow> Time Outcome" where
  "builtinCastStringAsTimeSig_evalTime ParseTime tp arg sc =
     (case EvalString arg of (val, isNull, err) \<Rightarrow>
        if isNull \<or> err \<noteq> None then Return ZeroTime isNull err sc
        else
          (case ParseTime sc val (Tp tp) (Decimal tp) of (res, perr, sc1) \<Rightarrow>
             if perr \<noteq> None then Return res False perr sc1
             else if Tp tp = TypeDate then Return (truncateToDate res) False perr sc1
             else Return res False perr sc1))"

definition builtinCastTimeAsTimeSig_evalTime ::
  "(Time \<Rightarrow> StatementContext \<Rightarrow> TypeTag \<Rightarrow> Time \<times> error option \<times> StatementContext)
   \<Rightarrow> (Time \<Rightarrow> StatementContext \<Rightarrow> int \<Rightarrow> Time \<times> error option \<times> StatementContext)
   \<Rightarrow> FieldType \<Rightarrow> ('j, 'f) Expression \<Rightarrow> StatementContext \<Rightarrow> Time Outcome" where
  "builtinCastTimeAsTimeSig_evalTime Convert RoundFrac tp arg sc =
     (case EvalTime arg of (res, isNull, err) \<Rightarrow>
        if isNull \<or> err \<noteq> None then Return res isNull err sc
        else
          (case Convert res sc (Tp tp) of (res1, cerr, sc1) \<Rightarrow>
             if cerr \<noteq> None then Return res1 True cerr sc1
             else
               (case RoundFrac res1 sc1 (Decimal tp) of (res2, rerr, sc2) \<Rightarrow>
                  if Tp tp = TypeDate
                  then Return ((truncateToDate res2)\<lparr>Time_Type := Tp tp\<rparr>) False rerr sc2
                  else Return res2 False rerr sc2)))"

definition builtinCastDurationAsTimeSig_evalTime ::
  "(Duration \<Rightarrow> StatementContext \<Rightarrow> TypeTag \<Rightarrow> Time \<times> error option \<times> StatementContext)
   \<Rightarrow> (Time \<Rightarrow> StatementContext \<Rightarrow> int \<Rightarrow> Time \<times> error option \<times> StatementContext)
   \<Rightarrow> FieldType \<Rightarrow> ('j, 'f) Expression \<Rightarrow> StatementContext \<Rightarrow> Time Outcome" where
  "builtinCastDurationAsTimeSig_evalTime ConvertToTime RoundFrac tp arg sc =
     (case EvalDuration arg of (val, isNull, err) \<Rightarrow>
        if isNull \<or> err \<noteq> None then Return ZeroTime isNull err sc
        else
          (case ConvertToTime val sc (Tp tp) of (res, cerr, sc1) \<Rightarrow>
             if cerr \<noteq> None then Return res False cerr sc1
             else
               (case RoundFrac res sc1 (Decimal tp) of (res2, rerr, sc2) \<Rightarrow>
                  Return res2 False rerr sc2)))"

definition builtinCastJSONAsTimeSig_evalTime ::
  "(StatementContext \<Rightarrow> string \<Rightarrow> TypeTag \<Rightarrow> int \<Rightarrow> Time \<times> error option \<times> StatementContext)
   \<Rightarrow> ('j \<Rightarrow> string \<times> error option)
   \<Rightarrow> FieldType \<Rightarrow> ('j, 'f) Expression \<Rightarrow> StatementContext \<Rightarrow> Time Outcome" where
  "builtinCastJSONAsTimeSig_evalTime ParseTime Unquote tp arg sc =
     (case EvalJSON arg of (val, isNull, err) \<Rightarrow>
        if isNull \<or> err \<noteq> None then Return ZeroTime isNull err sc
        else
          (case Unquote val of (s, uerr) \<Rightarrow>
             if uerr \<noteq> None then Return ZeroTime False uerr sc
             else
               (case ParseTime sc s (Tp tp) (Decimal tp) of (res, perr, sc1) \<Rightarrow>
                  if perr \<noteq> None then Return res False perr sc1
                  else if Tp tp = TypeDate then Return (truncateToDate res) False perr sc1
                  else Return res False perr sc1)))"

section \<open>Target Duration\<close>

definition builtinCastDecimalAsDurationSig_evalDuration ::
  "(string \<Rightarrow> int \<Rightarrow> Duration \<times> error option)
   \<Rightarrow> (MyDecimal \<Rightarrow> string)
   \<Rightarrow> FieldType \<Rightarrow> ('j, 'f) Expression \<Rightarrow> StatementContext \<Rightarrow> Duration Outcome" where
  "builtinCastDecimalAsDurationSig_evalDuration ParseDuration ToString tp arg sc =
     (case EvalDecimal arg of (val, isNull, err) \<Rightarrow>
        if isNull \<or> err \<noteq> None then Return ZeroDuration False err sc
        else
          (case ParseDuration (ToString val) (Decimal tp) of (res, perr) \<Rightarrow>
             if Equal ErrTruncatedWrongVal perr then
               (case HandleTruncate sc perr of (herr, sc1) \<Rightarrow>
                  if res = ZeroDuration then Return res True herr sc1
                  else Return res False herr sc1)
             else Return res False perr sc))"

definition builtinCastStringAsDurationSig_evalDuration ::
  "(string \<Rightarrow> int \<Rightarrow> Duration \<times> error option)
   \<Rightarrow> FieldType \<Rightarrow> ('j, 'f) Expression \<Rightarrow> StatementContext \<Rightarrow> Duration Outcome" where
  "builtinCastStringAsDurationSig_evalDuration ParseDuration tp arg sc =
     (case EvalString arg of (val, isNull, err) \<Rightarrow>
        if isNull \<or> err \<noteq> None then Return ZeroDuration isNull err sc
        else
          (case ParseDuration val (Decimal tp) of (res, perr) \<Rightarrow>
             if Equal ErrTruncatedWrongVal perr then
               (case HandleTruncate sc perr of (herr, sc1) \<Rightarrow>
                  if res = ZeroDuration then Return res True herr sc1
                  else Return res False herr sc1)
             else Return res False perr sc))"

definition builtinCastJSONAsDurationSig_evalDuration ::
  "(string \<Rightarrow> int \<Rightarrow> Duration \<times> error option)
   \<Rightarrow> ('j \<Rightarrow> string \<times> error option)
   \<Rightarrow> FieldType \<Rightarrow> ('j, 'f) Expression \<Rightarrow> StatementContext \<Rightarrow> Duration Outcome" where
  "builtinCastJSONAsDurationSig_evalDuration ParseDuration Unquote tp arg sc =
     (case EvalJSON arg of (val, isNull, err) \<Rightarrow>
        if isNull \<or> err \<noteq> None then Return ZeroDuration isNull err sc
        else
          (case Unquote val of (s, uerr) \<Rightarrow>
             if uerr \<noteq> None then Return ZeroDuration False uerr sc
             else
               (case ParseDuration s (Decimal tp) of (res, perr) \<Rightarrow>
                  if Equal ErrTruncatedWrongVal perr then
                    (case HandleTruncate sc perr of (herr, sc1) \<Rightarrow> Return res False herr sc1)
                  else Return res False perr sc)))"

section \<open>The helpers of package \<^verbatim>\<open>types\<close>, modelled from the spec\<close>

text \<open>
  The routines above take the functions of package \<^verbatim>\<open>types\<close> as parameters. This section
  defines some of them after the spec's words, so that the routines can be run on concrete
  inputs.
\<close>

definition isDigit :: "char \<Rightarrow> bool" where
  "isDigit c = (c \<in> set ''0123456789'')"

definition digitsValue :: "string \<Rightarrow> nat" where
  "digitsValue ds = foldl (\<lambda>a c. 10 * a + (of_char c - 48)) 0 ds"

text \<open>
  Modelled from the spec: \<^verbatim>\<open>types.StrToUint\<close>, the unsigned parse of a string that
  tolerates trailing noise: the value of the leading decimal digits; a partial parse is a
  truncation, reported to the sink; a value beyond 64 bits is an overflow error.
\<close>

definition types_StrToUint ::
  "StatementContext \<Rightarrow> string \<Rightarrow> uint64 \<times> error option \<times> StatementContext" where
  "types_StrToUint sc str =
     (let ds = takeWhile isDigit str; v = digitsValue ds in
      case (if ds = [] \<or> ds \<noteq> str
            then HandleTruncate sc (Some (Err ErrTruncated [''INTEGER'', str]))
            else (None, sc)) of
        (terr, sc1) \<Rightarrow>
          if v > 2 ^ 64 - 1
          then (MaxUint64, Some (Err ErrOverflow [''BIGINT UNSIGNED'', ds]), sc1)
          else (of_nat v, terr, sc1))"

text \<open>Modelled from the spec: \<^verbatim>\<open>types.StrToInt\<close>, the signed parse, with an optional sign.\<close>

definition types_StrToInt ::
  "StatementContext \<Rightarrow> string \<Rightarrow> int64 \<times> error option \<times> StatementContext" where
  "types_StrToInt sc str =
     (let neg = (str \<noteq> [] \<and> hd str = CHR ''-'');
          body = (if neg then tl str else str);
          ds = takeWhile isDigit body;
          v = (if neg then - int (digitsValue ds) else int (digitsValue ds)) in
      case (if ds = [] \<or> ds \<noteq> body
            then HandleTruncate sc (Some (Err ErrTruncated [''INTEGER'', str]))
            else (None, sc)) of
        (terr, sc1) \<Rightarrow>
          if v < - (2 ^ 63) then (MinInt64, Some (Err ErrOverflow [''BIGINT'', str]), sc1)
          else if v > 2 ^ 63 - 1 then (MaxInt64, Some (Err ErrOverflow [''BIGINT'', str]), sc1)
          else (word_of_int v, terr, sc1))"

text \<open>
  Modelled from the spec: \<^verbatim>\<open>types.ProduceStrWithSpecifiedTp\<close>, which truncates the text to
  the declared display length \<open>Flen\<close> (a truncation, reported to the sink) and pads the
  fixed-length binary type; a negative \<open>Flen\<close> is an unspecified length.
\<close>

definition types_ProduceStrWithSpecifiedTp ::
  "string \<Rightarrow> FieldType \<Rightarrow> StatementContext \<Rightarrow> string \<times> error option \<times> StatementContext" where
  "types_ProduceStrWithSpecifiedTp s tp sc =
     (if Flen tp < 0 then (s, None, sc)
      else if int (length s) > Flen tp then
        (case HandleTruncate sc (Some (Err ErrDataTooLong [])) of
           (err, sc1) \<Rightarrow> (take (nat (Flen tp)) s, err, sc1))
      else if Tp tp = TypeString \<and> BinaryFlag \<in> Flag tp then
        (s @ replicate (nat (Flen tp) - length s) (CHR 0x00), None, sc)
      else (s, None, sc))"

text \<open>
  Modelled from the spec: \<^verbatim>\<open>MyDecimal.Round\<close>. \<open>ModeHalfEven\<close> rounds half-to-even to
  \<open>frac\<close> fractional digits; \<open>ModeTruncate\<close> drops the digits beyond them.
\<close>

definition roundHalfEven :: "int \<Rightarrow> int \<Rightarrow> int" where
  "roundHalfEven u p =
     (if 2 * (u mod p) < p then u div p
      else if 2 * (u mod p) > p then u div p + 1
      else if even (u div p) then u div p else u div p + 1)"

definition truncQuot :: "int \<Rightarrow> int \<Rightarrow> int" where
  "truncQuot u p = (if u < 0 then - ((- u) div p) else u div p)"

definition types_Round :: "MyDecimal \<Rightarrow> int \<Rightarrow> RoundMode \<Rightarrow> MyDecimal \<times> error option" where
  "types_Round d frac mode =
     (if int (dec_frac d) \<le> frac then (d, None)
      else
        let p = 10 ^ nat (int (dec_frac d) - frac);
            q = (case mode of ModeHalfEven \<Rightarrow> roundHalfEven (dec_unscaled d) p
                 | ModeTruncate \<Rightarrow> truncQuot (dec_unscaled d) p)
        in if frac < 0 then (\<lparr>dec_unscaled = q * 10 ^ nat (- frac), dec_frac = 0\<rparr>, None)
           else (\<lparr>dec_unscaled = q, dec_frac = nat frac\<rparr>, None))"

text \<open>
  Modelled from the spec: \<^verbatim>\<open>MyDecimal.ToInt\<close> and \<^verbatim>\<open>MyDecimal.ToUint\<close>, the conversion to a
  signed or unsigned 64-bit integer; a value out of range is an overflow error, with the
  endpoint as value.
\<close>

definition types_ToInt :: "MyDecimal \<Rightarrow> int64 \<times> error option" where
  "types_ToInt d =
     (let v = truncQuot (dec_unscaled d) (10 ^ dec_frac d) in
      if v < - (2 ^ 63) then (MinInt64, Some (Err ErrOverflow [''BIGINT'']))
      else if v > 2 ^ 63 - 1 then (MaxInt64, Some (Err ErrOverflow [''BIGINT'']))
      else (word_of_int v, None))"

definition types_ToUint :: "MyDecimal \<Rightarrow> uint64 \<times> error option" where
  "types_ToUint d =
     (let v = truncQuot (dec_unscaled d) (10 ^ dec_frac d) in
      if v < 0 then (0, Some (Err ErrOverflow [''BIGINT UNSIGNED'']))
      else if v > 2 ^ 64 - 1 then (MaxUint64, Some (Err ErrOverflow [''BIGINT UNSIGNED'']))
      else (word_of_int v, None))"

text \<open>Modelled from the spec: the decimal literal text of a \<^verbatim>\<open>MyDecimal\<close>.\<close>

definition types_ToString :: "MyDecimal \<Rightarrow> string" where
  "types_ToString d =
     (let u = nat \<bar>dec_unscaled d\<bar>; p = 10 ^ dec_frac d;
          fracDigits = FormatUint (u mod p) in
      (if dec_unscaled d < 0 then ''-'' else [])
      @ FormatUint (u div p)
      @ (if dec_frac d = 0 then []
         else CHR ''.'' # replicate (dec_frac d - length fracDigits) (CHR ''0'') @ fracDigits))"

text \<open>
  Modelled from the spec: \<^verbatim>\<open>types.ProduceDecWithSpecifiedTp\<close>, the precision-adjustment
  step: it rounds to the target's declared scale \<open>Decimal\<close> and total digits \<open>Flen\<close>,
  reporting a truncation to the sink when digits were dropped; a value with more integer
  digits than \<open>Flen - Decimal\<close> becomes the largest value of the type, with an overflow
  error. A negative \<open>Flen\<close> or \<open>Decimal\<close> is unspecified.
\<close>

definition types_ProduceDecWithSpecifiedTp ::
  "MyDecimal \<Rightarrow> FieldType \<Rightarrow> StatementContext
     \<Rightarrow> MyDecimal option \<times> error option \<times> StatementContext" where
  "types_ProduceDecWithSpecifiedTp dec tp sc =
     (if Flen tp < 0 \<or> Decimal tp < 0 then (Some dec, None, sc)
      else
        let r = fst (types_Round dec (Decimal tp) ModeHalfEven);
            limit = 10 ^ nat (Flen tp - Decimal tp) in
        if \<bar>truncQuot (dec_unscaled r) (10 ^ dec_frac r)\<bar> \<ge> limit then
          (Some \<lparr>dec_unscaled = (if dec_unscaled dec < 0 then - 1 else 1) * (10 ^ nat (Flen tp) - 1),
                 dec_frac = nat (Decimal tp)\<rparr>,
           Some (Err ErrOverflow [''DECIMAL'']), sc)
        else if dec_unscaled r * 10 ^ (dec_frac dec - dec_frac r) \<noteq> dec_unscaled dec then
          (case HandleTruncate sc (Some (Err ErrTruncated [])) of
             (err, sc1) \<Rightarrow> (Some r, err, sc1))
        else (Some r, None, sc))"

text \<open>
  Modelled from the spec: \<^verbatim>\<open>types.ParseDuration\<close>, which reads a signed \<^verbatim>\<open>HH:MM:SS\<close>
  literal or the numeric encoding \<^verbatim>\<open>HHMMSS\<close>; a malformed text gives the literal zero
  duration together with a truncation diagnostic. Fractions are not read by this model.
\<close>

definition parseHMS :: "string \<Rightarrow> (nat \<times> nat \<times> nat) option" where
  "parseHMS body =
     (if length body = 8 \<and> body ! 2 = CHR '':'' \<and> body ! 5 = CHR '':''
         \<and> list_all isDigit (take 2 body @ take 2 (drop 3 body) @ drop 6 body)
      then Some (digitsValue (take 2 body), digitsValue (take 2 (drop 3 body)),
                 digitsValue (drop 6 body))
      else if body \<noteq> [] \<and> length body \<le> 6 \<and> list_all isDigit body
      then Some (digitsValue body div 10000, (digitsValue body div 100) mod 100,
                 digitsValue body mod 100)
      else None)"

definition types_ParseDuration :: "string \<Rightarrow> int \<Rightarrow> Duration \<times> error option" where
  "types_ParseDuration str fsp =
     (let neg = (str \<noteq> [] \<and> hd str = CHR ''-'');
          body = (if neg then tl str else str) in
      case parseHMS body of
        None \<Rightarrow> (ZeroDuration, Some (Err ErrTruncatedWrongVal [''time'', str]))
      | Some (h, m, s) \<Rightarrow>
          if m < 60 \<and> s < 60 then
            (\<lparr>dur_Duration = (if neg then - 1 else 1) * int ((h * 3600 + m * 60 + s) * 1000000000),
              dur_Fsp = fsp\<rparr>, None)
          else (ZeroDuration, Some (Err ErrTruncatedWrongVal [''time'', str])))"

text \<open>
  Modelled from the spec: \<^verbatim>\<open>Duration.ConvertToTime\<close>, which anchors the duration against
  the current date \<open>(y, m, d)\<close> supplied by the context: the date is the current date and
  the time of day is the duration. The model covers the durations within one day; the
  others move the date and are reported as an error here.
\<close>

definition types_ConvertToTime ::
  "nat \<times> nat \<times> nat \<Rightarrow> Duration \<Rightarrow> StatementContext \<Rightarrow> TypeTag
     \<Rightarrow> Time \<times> error option \<times> StatementContext" where
  "types_ConvertToTime today dur sc tp =
     (case today of (y, m, d) \<Rightarrow>
        if 0 \<le> dur_Duration dur \<and> dur_Duration dur < 86400 * 1000000000 then
          let us = nat (dur_Duration dur) div 1000; secs = us div 1000000 in
          (\<lparr>Time_Time = FromDate y m d (secs div 3600) ((secs div 60) mod 60) (secs mod 60)
                           (us mod 1000000),
            Time_Type = tp, Time_Fsp = dur_Fsp dur\<rparr>, None, sc)
        else (ZeroTime, Some (Err ErrInvalid [''duration'']), sc))"

text \<open>
  Modelled from the spec: \<^verbatim>\<open>Time.RoundFrac\<close>, the rounding of the fractional seconds to
  \<open>fsp\<close> digits. A rounding that carries into the seconds is outside this model and is
  reported as an error here.
\<close>

definition types_RoundFrac ::
  "Time \<Rightarrow> StatementContext \<Rightarrow> int \<Rightarrow> Time \<times> error option \<times> StatementContext" where
  "types_RoundFrac t sc fsp =
     (let unit = 10 ^ (6 - nat fsp);
          r = ((Microsecond (Time_Time t) + unit div 2) div unit) * unit in
      if r < 1000000
      then (t\<lparr>Time_Time := (Time_Time t)\<lparr>Microsecond := r\<rparr>, Time_Fsp := fsp\<rparr>, None, sc)
      else (t, Some (Err ErrInvalid [''carry'']), sc))"

text \<open>
  Modelled from the spec: a JSON value, as far as the casts look at it: a string scalar or
  an integer. \<^verbatim>\<open>Unquote\<close> gives the content of a string scalar and the text of a number;
  \<^verbatim>\<open>String\<close> is the serialization, which quotes a string scalar. The JSON-to-number
  coercion \<^verbatim>\<open>types.ConvertJSONToFloat\<close> gives the number itself, and for a string the
  number it parses to; \<open>int\<close> stands for the \<^verbatim>\<open>float64\<close> values that are whole numbers,
  and \<^verbatim>\<open>MyDecimal.FromFloat64\<close> gives such a value as a decimal.
\<close>

datatype BinaryJSON = JSONString string | JSONInt int

fun json_Unquote :: "BinaryJSON \<Rightarrow> string \<times> error option" where
  "json_Unquote (JSONString s) = (s, None)"
| "json_Unquote (JSONInt i) = (FormatInt i, None)"

fun json_String :: "BinaryJSON \<Rightarrow> string" where
  "json_String (JSONString s) = CHR 0x22 # s @ [CHR 0x22]"
| "json_String (JSONInt i) = FormatInt i"

fun json_ConvertJSONToFloat ::
  "StatementContext \<Rightarrow> BinaryJSON \<Rightarrow> int \<times> error option \<times> StatementContext" where
  "json_ConvertJSONToFloat sc (JSONInt i) = (i, None, sc)"
| "json_ConvertJSONToFloat sc (JSONString s) =
     (case types_StrToInt sc s of (w, err, sc1) \<Rightarrow> (sint w, err, sc1))"

definition types_FromFloat64 :: "int \<Rightarrow> MyDecimal \<times> error option" where
  "types_FromFloat64 f = (\<lparr>dec_unscaled = f, dec_frac = 0\<rparr>, None)"

subsection \<open>Concrete arguments, targets and contexts\<close>

text \<open>An argument whose every view is null; the others update one view of it.\<close>

definition nullExpr :: "(BinaryJSON, int) Expression" where
  "nullExpr =
     \<lparr>Hybrid = False, GetEvalType = ETString, GetFlag = {}, IsBinaryLiteral = False,
      EvalInt = (0, True, None), EvalReal = (0, True, None),
      EvalDecimal = (\<lparr>dec_unscaled = 0, dec_frac = 0\<rparr>, True, None),
      EvalString = ([], True, None), EvalTime = (ZeroTime, True, None),
      EvalDuration = (ZeroDuration, True, None), EvalJSON = (JSONInt 0, True, None)\<rparr>"

definition intExpr :: "int64 \<Rightarrow> (BinaryJSON, int) Expression" where
  "intExpr i = nullExpr\<lparr>GetEvalType := ETInt, EvalInt := (i, False, None)\<rparr>"

definition stringExpr :: "string \<Rightarrow> (BinaryJSON, int) Expression" where
  "stringExpr s = nullExpr\<lparr>GetEvalType := ETString, EvalString := (s, False, None)\<rparr>"

definition decimalExpr :: "MyDecimal \<Rightarrow> (BinaryJSON, int) Expression" where
  "decimalExpr d = nullExpr\<lparr>GetEvalType := ETDecimal, EvalDecimal := (d, False, None)\<rparr>"

definition durationExpr :: "Duration \<Rightarrow> (BinaryJSON, int) Expression" where
  "durationExpr d = nullExpr\<lparr>GetEvalType := ETDuration, EvalDuration := (d, False, None)\<rparr>"

definition jsonExpr :: "BinaryJSON \<Rightarrow> (BinaryJSON, int) Expression" where
  "jsonExpr j = nullExpr\<lparr>GetEvalType := ETJson, EvalJSON := (j, False, None)\<rparr>"

definition fieldType :: "TypeTag \<Rightarrow> FieldFlag set \<Rightarrow> int \<Rightarrow> int \<Rightarrow> FieldType" where
  "fieldType t fl flen dec =
     \<lparr>Tp = t, Flag = fl, Flen = flen, Decimal = dec, Charset = ''utf8''\<rparr>"

definition stmtCtx :: "bool \<Rightarrow> bool \<Rightarrow> StatementContext" where
  "stmtCtx inSelect asWarning =
     \<lparr>InSelectStmt = inSelect, OverflowAsWarning = asWarning, TruncateAsWarning = asWarning,
      Warnings = []\<rparr>"

text \<open>
  The lenient context of the spec: a SELECT statement whose sink reports an overflow as a
  warning. Every other context is strict.
\<close>

definition lenient :: "StatementContext \<Rightarrow> bool" where
  "lenient sc = (InSelectStmt sc \<and> OverflowAsWarning sc)"

section \<open>Theorems\<close>

lemmas parse_defs = types_StrToUint_def types_StrToInt_def isDigit_def digitsValue_def Let_def

lemmas trim_defs = TrimSpace_def spaceRunes_def leadingSpace_def

lemmas fixture_defs =
  nullExpr_def stringExpr_def intExpr_def decimalExpr_def durationExpr_def jsonExpr_def
  fieldType_def stmtCtx_def

lemmas decimal_defs =
  types_Round_def roundHalfEven_def truncQuot_def types_ToInt_def types_ToUint_def

lemma isNegative_iff: "isNegative v \<longleftrightarrow> (2 \<le> length v \<and> hd v = CHR ''-'')"
  by (cases v) (auto simp: isNegative_def Suc_le_eq)



subsection \<open>String to Integer\<close>

text \<open>
  C3. When the parse of the trimmed string reports an overflow (the signed parse for a
  negative string, the unsigned parse otherwise), the cast gives the 64-bit endpoint
  (\<open>MinInt64\<close> for a negative string, \<open>MaxUint64\<close> otherwise) with a warning and no error
  if and only if the context is lenient (a SELECT statement, whose sink reports an overflow
  as a warning); in every other context the overflow error is returned, which is fatal,
  and no warning is recorded.
\<close>

theorem C3_overflow_clamps_only_in_lenient_context:
  fixes arg :: "('j, 'f) Expression"
  assumes "\<not> Hybrid arg" and "\<not> IsBinaryLiteral arg"
    and "EvalString arg = (s, False, None)"
    and "(if isNegative (TrimSpace s) then StrToInt sc (TrimSpace s)
          else StrToUint sc (TrimSpace s)) = (r, Some (Err ErrOverflow a), sc1)"
  shows "(lenient sc1 \<longrightarrow>
            builtinCastStringAsIntSig_evalInt StrToInt StrToUint tp arg sc
              = Return (if isNegative (TrimSpace s) then MinInt64 else MaxUint64) False None
                  (AppendWarning sc1 (Err ErrTruncatedWrongVal [''INTEGER'', TrimSpace s])))
       \<and> (\<not> lenient sc1 \<longrightarrow>
            out_err (builtinCastStringAsIntSig_evalInt StrToInt StrToUint tp arg sc)
              = Some (Err ErrOverflow a)
          \<and> out_sc (builtinCastStringAsIntSig_evalInt StrToInt StrToUint tp arg sc) = sc1)
       \<and> (out_err (builtinCastStringAsIntSig_evalInt StrToInt StrToUint tp arg sc) = None
            \<longleftrightarrow> lenient sc1)"
  using assms
  by (cases "isNegative (TrimSpace s)")
     (auto simp: builtinCastStringAsIntSig_evalInt_def builtinCastStringAsIntSig_handleOverflow_def
        lenient_def Return_def Let_def split: prod.splits if_splits)

theorem C3_overflow_witness:
  "builtinCastStringAsIntSig_evalInt types_StrToInt types_StrToUint
     (fieldType TypeLonglong {UnsignedFlag} 20 0) (stringExpr ''18446744073709551616'')
     (stmtCtx True True)
   = Return MaxUint64 False None
       (AppendWarning (stmtCtx True True)
          (Err ErrTruncatedWrongVal [''INTEGER'', ''18446744073709551616'']))
   \<and> unat MaxUint64 = 18446744073709551615
   \<and> out_err (builtinCastStringAsIntSig_evalInt types_StrToInt types_StrToUint
        (fieldType TypeLonglong {UnsignedFlag} 20 0) (stringExpr ''18446744073709551616'')
        (stmtCtx False False))
     = Some (Err ErrOverflow [''BIGINT UNSIGNED'', ''18446744073709551616''])"
proof -
  let ?s = "''18446744073709551616''"
  have h1: "\<not> Hybrid (stringExpr ?s)" by (simp add: fixture_defs)
  have h2: "\<not> IsBinaryLiteral (stringExpr ?s)" by (simp add: fixture_defs)
  have h3: "EvalString (stringExpr ?s) = (?s, False, None)" by (simp add: fixture_defs)
  have t: "TrimSpace ?s = ?s" by (simp add: trim_defs)
  have n: "\<not> isNegative ?s" by (simp add: isNegative_def)
  have p: "types_StrToUint sc ?s = (MaxUint64, Some (Err ErrOverflow [''BIGINT UNSIGNED'', ?s]), sc)"
    for sc by (simp add: parse_defs)
  have h4: "(if isNegative (TrimSpace ?s) then types_StrToInt sc (TrimSpace ?s)
             else types_StrToUint sc (TrimSpace ?s))
            = (MaxUint64, Some (Err ErrOverflow [''BIGINT UNSIGNED'', ?s]), sc)" for sc
    using t n p by simp
  have l1: "lenient (stmtCtx True True)" by (simp add: lenient_def stmtCtx_def)
  have l2: "\<not> lenient (stmtCtx False False)" by (simp add: lenient_def stmtCtx_def)
  have u: "unat MaxUint64 = 18446744073709551615" by (simp add: MaxUint64_def)
  from C3_overflow_clamps_only_in_lenient_context
         [where StrToInt = types_StrToInt and StrToUint = types_StrToUint
            and sc = "stmtCtx True True"
            and tp = "fieldType TypeLonglong {UnsignedFlag} 20 0",
          OF h1 h2 h3 h4 [of "stmtCtx True True"]]
       C3_overflow_clamps_only_in_lenient_context
         [where StrToInt = types_StrToInt and StrToUint = types_StrToUint
            and sc = "stmtCtx False False"
            and tp = "fieldType TypeLonglong {UnsignedFlag} 20 0",
          OF h1 h2 h3 h4 [of "stmtCtx False False"]]
       l1 l2 t n u
  show ?thesis by simp
qed

text \<open>
  C6. A trimmed string of at least two bytes that starts with \<open>-\<close> is parsed by the signed
  parse, and when that parse reports no error the warning \<open>ErrCastNegIntAsUnsigned\<close> is
  appended whatever the signedness of the target: the cast of \<open>-1\<close> to a signed target
  carries it as the cast to an unsigned target does.
\<close>

theorem C6_negative_warning_also_for_signed_target:
  fixes arg :: "('j, 'f) Expression"
  assumes "\<not> Hybrid arg" and "\<not> IsBinaryLiteral arg"
    and "EvalString arg = (s, False, None)"
    and "isNegative (TrimSpace s)"
    and "StrToInt sc (TrimSpace s) = (r, None, sc1)"
  shows "builtinCastStringAsIntSig_evalInt StrToInt StrToUint tp arg sc
           = Return r False None (AppendWarning sc1 (Err ErrCastNegIntAsUnsigned []))"
  using assms
  by (simp add: builtinCastStringAsIntSig_evalInt_def builtinCastStringAsIntSig_handleOverflow_def)

theorem C6_negative_warning_witness:
  "\<not> HasUnsignedFlag (Flag (fieldType TypeLonglong {} 20 0))
   \<and> builtinCastStringAsIntSig_evalInt types_StrToInt types_StrToUint
       (fieldType TypeLonglong {} 20 0) (stringExpr ''-1'') (stmtCtx True True)
     = Return (- 1) False None
         (AppendWarning (stmtCtx True True) (Err ErrCastNegIntAsUnsigned []))
   \<and> builtinCastStringAsIntSig_evalInt types_StrToInt types_StrToUint
       (fieldType TypeLonglong {UnsignedFlag} 20 0) (stringExpr ''-1'') (stmtCtx True True)
     = Return (- 1) False None
         (AppendWarning (stmtCtx True True) (Err ErrCastNegIntAsUnsigned []))
   \<and> unat (- 1 :: int64) = 18446744073709551615"
proof -
  have h1: "\<not> Hybrid (stringExpr ''-1'')" by (simp add: fixture_defs)
  have h2: "\<not> IsBinaryLiteral (stringExpr ''-1'')" by (simp add: fixture_defs)
  have h3: "EvalString (stringExpr ''-1'') = (''-1'', False, None)" by (simp add: fixture_defs)
  have h4: "isNegative (TrimSpace ''-1'')" by (simp add: trim_defs isNegative_def)
  have h5: "types_StrToInt (stmtCtx True True) (TrimSpace ''-1'') = (- 1, None, stmtCtx True True)"
    by (simp add: trim_defs parse_defs)
  have f: "\<not> HasUnsignedFlag (Flag (fieldType TypeLonglong {} 20 0))"
    by (simp add: HasUnsignedFlag_def fieldType_def)
  have u: "unat (- 1 :: int64) = 18446744073709551615" by (simp add: unsigned_minus_1_eq_mask mask_eq_exp_minus_1)
  from C6_negative_warning_also_for_signed_target
         [where StrToInt = types_StrToInt and StrToUint = types_StrToUint
            and sc = "stmtCtx True True" and tp = "fieldType TypeLonglong {} 20 0",
          OF h1 h2 h3 h4 h5]
       C6_negative_warning_also_for_signed_target
         [where StrToInt = types_StrToInt and StrToUint = types_StrToUint
            and sc = "stmtCtx True True" and tp = "fieldType TypeLonglong {UnsignedFlag} 20 0",
          OF h1 h2 h3 h4 h5]
       f u
  show ?thesis by simp
qed

text \<open>
  C10. A string is treated as negative exactly when it has at least two bytes and the first
  is \<open>-\<close>. A string that trims to the single byte \<open>-\<close> is not negative: the signed parse is
  not called (the result is the same whatever it is), the string goes to the unsigned
  parse, and the warnings that the cast appends after that parse do not contain
  \<open>ErrCastNegIntAsUnsigned\<close>.
\<close>

theorem C10_single_minus_is_not_negative:
  fixes arg :: "('j, 'f) Expression"
  assumes "\<not> Hybrid arg" and "\<not> IsBinaryLiteral arg"
    and "EvalString arg = (s, False, None)" and "TrimSpace s = ''-''"
    and "StrToUint sc ''-'' = (ures, uerr, sc1)"
  shows "(\<forall>v. isNegative v \<longleftrightarrow> (2 \<le> length v \<and> hd v = CHR ''-''))
       \<and> \<not> isNegative (TrimSpace s)
       \<and> builtinCastStringAsIntSig_evalInt StrToInt StrToUint tp arg sc
           = builtinCastStringAsIntSig_evalInt StrToInt' StrToUint tp arg sc
       \<and> (\<exists>ws. Warnings (out_sc (builtinCastStringAsIntSig_evalInt StrToInt StrToUint tp arg sc))
                 = Warnings sc1 @ ws
               \<and> Err ErrCastNegIntAsUnsigned [] \<notin> set ws)"
proof -
  have a: "\<forall>v. isNegative v \<longleftrightarrow> (2 \<le> length v \<and> hd v = CHR ''-'')"
    by (simp add: isNegative_iff)
  have b: "\<not> isNegative (TrimSpace s)"
    using assms(4) by (simp add: isNegative_def)
  have c: "builtinCastStringAsIntSig_evalInt StrToInt StrToUint tp arg sc
           = builtinCastStringAsIntSig_evalInt StrToInt' StrToUint tp arg sc"
    using assms(1-4) b by (simp add: builtinCastStringAsIntSig_evalInt_def)
  have d: "\<exists>ws. Warnings (out_sc (builtinCastStringAsIntSig_evalInt StrToInt StrToUint tp arg sc))
                 = Warnings sc1 @ ws
               \<and> Err ErrCastNegIntAsUnsigned [] \<notin> set ws"
    using assms b
    by (cases uerr)
       (auto simp: builtinCastStringAsIntSig_evalInt_def builtinCastStringAsIntSig_handleOverflow_def
          Return_def AppendWarning_def Let_def split: prod.splits if_splits)
  from a b c d show ?thesis by blast
qed

theorem C10_single_minus_witness:
  "\<not> Hybrid (stringExpr '' - '') \<and> \<not> IsBinaryLiteral (stringExpr '' - '')
   \<and> EvalString (stringExpr '' - '') = ('' - '', False, None) \<and> TrimSpace '' - '' = ''-''
   \<and> types_StrToUint (stmtCtx True True) ''-''
       = (0, None, AppendWarning (stmtCtx True True) (Err ErrTruncated [''INTEGER'', ''-'']))
   \<and> \<not> isNegative (TrimSpace '' - '')
   \<and> (\<exists>ws. Warnings (out_sc (builtinCastStringAsIntSig_evalInt types_StrToInt types_StrToUint
                 (fieldType TypeLonglong {UnsignedFlag} 20 0) (stringExpr '' - '')
                 (stmtCtx True True)))
             = Warnings (AppendWarning (stmtCtx True True) (Err ErrTruncated [''INTEGER'', ''-'']))
               @ ws
           \<and> Err ErrCastNegIntAsUnsigned [] \<notin> set ws)"
proof -
  have h1: "\<not> Hybrid (stringExpr '' - '')" by (simp add: fixture_defs)
  have h2: "\<not> IsBinaryLiteral (stringExpr '' - '')" by (simp add: fixture_defs)
  have h3: "EvalString (stringExpr '' - '') = ('' - '', False, None)" by (simp add: fixture_defs)
  have h4: "TrimSpace '' - '' = ''-''" by (simp add: trim_defs)
  have h5: "types_StrToUint (stmtCtx True True) ''-''
            = (0, None, AppendWarning (stmtCtx True True) (Err ErrTruncated [''INTEGER'', ''-'']))"
    by (simp add: parse_defs fixture_defs)
  from C10_single_minus_is_not_negative
         [where StrToInt = types_StrToInt and StrToInt' = types_StrToInt
            and StrToUint = types_StrToUint and sc = "stmtCtx True True"
            and tp = "fieldType TypeLonglong {UnsignedFlag} 20 0", OF h1 h2 h3 h4 h5]
  show ?thesis using h1 h2 h3 h4 h5 by blast
qed




subsection \<open>Decimal sources\<close>

text \<open>
  C5. With the rounding of the spec (half-to-even to zero fractional digits), the cast of
  the Decimal 2.5 to an Integer target gives 2 and that of 3.5 gives 4, for a signed and
  for an unsigned target. In general the cast rounds with \<open>ModeHalfEven\<close> to zero digits
  and converts the rounded value by \<open>ToUint\<close> or \<open>ToInt\<close> after the target's flag; when the
  conversion reports an overflow, the warning handed to the sink carries the text of the
  original decimal, not of the rounded one.
\<close>

theorem C5_decimal_to_int_rounds_half_even:
  fixes arg :: "('j, 'f) Expression"
  shows "builtinCastDecimalAsIntSig_evalInt types_Round types_ToUint types_ToInt types_ToString tp
           (decimalExpr \<lparr>dec_unscaled = 25, dec_frac = 1\<rparr>) sc = Return 2 False None sc
       \<and> builtinCastDecimalAsIntSig_evalInt types_Round types_ToUint types_ToInt types_ToString tp
           (decimalExpr \<lparr>dec_unscaled = 35, dec_frac = 1\<rparr>) sc = Return 4 False None sc
       \<and> (EvalDecimal arg = (val, False, None) \<and> Round val 0 ModeHalfEven = (to, None)
            \<and> (if HasUnsignedFlag (Flag tp) then ToUint to else ToInt to) = (r, None)
          \<longrightarrow> builtinCastDecimalAsIntSig_evalInt Round ToUint ToInt MyDecimal_String tp arg sc
                = Return r False None sc)
       \<and> (EvalDecimal arg = (val, False, None) \<and> Round val 0 ModeHalfEven = (to, None)
            \<and> (if HasUnsignedFlag (Flag tp) then ToUint to else ToInt to)
                = (r, Some (Err ErrOverflow a))
          \<longrightarrow> builtinCastDecimalAsIntSig_evalInt Round ToUint ToInt MyDecimal_String tp arg sc
                = (if OverflowAsWarning sc
                   then Return r False None
                          (AppendWarning sc
                             (Err ErrTruncatedWrongVal [''DECIMAL'', MyDecimal_String val]))
                   else Return r False (Some (Err ErrOverflow a)) sc))"
proof -
  have a: "builtinCastDecimalAsIntSig_evalInt types_Round types_ToUint types_ToInt types_ToString tp
           (decimalExpr \<lparr>dec_unscaled = 25, dec_frac = 1\<rparr>) sc = Return 2 False None sc"
    by (simp add: builtinCastDecimalAsIntSig_evalInt_def fixture_defs decimal_defs)
  have b: "builtinCastDecimalAsIntSig_evalInt types_Round types_ToUint types_ToInt types_ToString tp
           (decimalExpr \<lparr>dec_unscaled = 35, dec_frac = 1\<rparr>) sc = Return 4 False None sc"
    by (simp add: builtinCastDecimalAsIntSig_evalInt_def fixture_defs decimal_defs)
  have c: "EvalDecimal arg = (val, False, None) \<and> Round val 0 ModeHalfEven = (to, None)
            \<and> (if HasUnsignedFlag (Flag tp) then ToUint to else ToInt to) = (r, None)
          \<longrightarrow> builtinCastDecimalAsIntSig_evalInt Round ToUint ToInt MyDecimal_String tp arg sc
                = Return r False None sc"
    by (simp add: builtinCastDecimalAsIntSig_evalInt_def)
  have d: "EvalDecimal arg = (val, False, None) \<and> Round val 0 ModeHalfEven = (to, None)
            \<and> (if HasUnsignedFlag (Flag tp) then ToUint to else ToInt to)
                = (r, Some (Err ErrOverflow a))
          \<longrightarrow> builtinCastDecimalAsIntSig_evalInt Round ToUint ToInt MyDecimal_String tp arg sc
                = (if OverflowAsWarning sc
                   then Return r False None
                          (AppendWarning sc
                             (Err ErrTruncatedWrongVal [''DECIMAL'', MyDecimal_String val]))
                   else Return r False (Some (Err ErrOverflow a)) sc)"
    by (simp add: builtinCastDecimalAsIntSig_evalInt_def)
  from a b c d show ?thesis by blast
qed

theorem C5_decimal_overflow_witness:
  "builtinCastDecimalAsIntSig_evalInt types_Round types_ToUint types_ToInt types_ToString
     (fieldType TypeLonglong {UnsignedFlag} 20 0)
     (decimalExpr \<lparr>dec_unscaled = 184467440737095516155, dec_frac = 1\<rparr>) (stmtCtx True True)
   = Return MaxUint64 False None
       (AppendWarning (stmtCtx True True)
          (Err ErrTruncatedWrongVal [''DECIMAL'', ''18446744073709551615.5'']))
   \<and> builtinCastDecimalAsIntSig_evalInt types_Round types_ToUint types_ToInt types_ToString
       (fieldType TypeLonglong {} 20 0)
       (decimalExpr \<lparr>dec_unscaled = 25, dec_frac = 1\<rparr>) (stmtCtx True True)
     = Return 2 False None (stmtCtx True True)"
proof -
  let ?d = "\<lparr>dec_unscaled = 184467440737095516155, dec_frac = 1\<rparr>"
  let ?to = "\<lparr>dec_unscaled = 18446744073709551616, dec_frac = 0\<rparr>"
  let ?tp = "fieldType TypeLonglong {UnsignedFlag} 20 0"
  have h1: "EvalDecimal (decimalExpr ?d) = (?d, False, None)" by (simp add: fixture_defs)
  have h2: "types_Round ?d 0 ModeHalfEven = (?to, None)" by (simp add: decimal_defs)
  have h3: "(if HasUnsignedFlag (Flag ?tp) then types_ToUint ?to else types_ToInt ?to)
            = (MaxUint64, Some (Err ErrOverflow [''BIGINT UNSIGNED'']))"
    by (simp add: decimal_defs fieldType_def HasUnsignedFlag_def)
  have s: "types_ToString ?d = ''18446744073709551615.5''"
    by (simp add: types_ToString_def FormatUint.simps digitChar_def)
  have w: "OverflowAsWarning (stmtCtx True True)" by (simp add: stmtCtx_def)
  from C5_decimal_to_int_rounds_half_even
         [where Round = types_Round and ToUint = types_ToUint and ToInt = types_ToInt
            and MyDecimal_String = types_ToString and arg = "decimalExpr ?d"
            and val = ?d and to = ?to and r = MaxUint64 and a = "[''BIGINT UNSIGNED'']"
            and tp = ?tp and sc = "stmtCtx True True"]
       C5_decimal_to_int_rounds_half_even
         [where Round = types_Round and ToUint = types_ToUint and ToInt = types_ToInt
            and MyDecimal_String = types_ToString and arg = "decimalExpr ?d"
            and tp = "fieldType TypeLonglong {} 20 0" and sc = "stmtCtx True True"]
       h1 h2 h3 s w
  show ?thesis by simp
qed

text \<open>
  C9. Every Decimal-to-Decimal cast of a value that is neither null nor an error returns
  what the precision-adjustment step \<open>ProduceDecWithSpecifiedTp\<close> returns on the value and
  the target type; with the adjustment of the spec, the cast of 12.34 to a Decimal(10,2)
  target returns 12.34 unchanged, with no error and no warning.
\<close>

theorem C9_decimal_to_decimal_same_precision:
  fixes arg :: "('j, 'f) Expression"
  shows "(EvalDecimal arg = (d, False, None) \<longrightarrow>
            builtinCastDecimalAsDecimalSig_evalDecimal ProduceDecWithSpecifiedTp tp arg sc
              = Return (fst (ProduceDecWithSpecifiedTp d tp sc)) False
                  (fst (snd (ProduceDecWithSpecifiedTp d tp sc)))
                  (snd (snd (ProduceDecWithSpecifiedTp d tp sc))))
       \<and> builtinCastDecimalAsDecimalSig_evalDecimal types_ProduceDecWithSpecifiedTp
            (fieldType TypeNewDecimal {} 10 2)
            (decimalExpr \<lparr>dec_unscaled = 1234, dec_frac = 2\<rparr>) sc
           = Return (Some \<lparr>dec_unscaled = 1234, dec_frac = 2\<rparr>) False None sc"
  by (simp add: builtinCastDecimalAsDecimalSig_evalDecimal_def fixture_defs
        types_ProduceDecWithSpecifiedTp_def types_Round_def truncQuot_def split: prod.splits)

theorem C9_decimal_adjustment_witness:
  "builtinCastDecimalAsDecimalSig_evalDecimal types_ProduceDecWithSpecifiedTp
     (fieldType TypeNewDecimal {} 10 2)
     (decimalExpr \<lparr>dec_unscaled = 12345, dec_frac = 3\<rparr>) (stmtCtx True True)
   = Return (Some \<lparr>dec_unscaled = 1234, dec_frac = 2\<rparr>) False None
       (AppendWarning (stmtCtx True True) (Err ErrTruncated []))
   \<and> builtinCastDecimalAsDecimalSig_evalDecimal types_ProduceDecWithSpecifiedTp
       (fieldType TypeNewDecimal {} 10 2)
       (decimalExpr \<lparr>dec_unscaled = 1234, dec_frac = 2\<rparr>) (stmtCtx True True)
     = Return (Some \<lparr>dec_unscaled = 1234, dec_frac = 2\<rparr>) False None (stmtCtx True True)"
proof -
  let ?d = "\<lparr>dec_unscaled = 12345, dec_frac = 3\<rparr>"
  let ?tp = "fieldType TypeNewDecimal {} 10 2"
  have h1: "EvalDecimal (decimalExpr ?d) = (?d, False, None)" by (simp add: fixture_defs)
  have p: "types_ProduceDecWithSpecifiedTp ?d ?tp (stmtCtx True True)
           = (Some \<lparr>dec_unscaled = 1234, dec_frac = 2\<rparr>, None,
              AppendWarning (stmtCtx True True) (Err ErrTruncated []))"
    by (simp add: types_ProduceDecWithSpecifiedTp_def decimal_defs fieldType_def stmtCtx_def)
  from C9_decimal_to_decimal_same_precision
         [where ProduceDecWithSpecifiedTp = types_ProduceDecWithSpecifiedTp
            and arg = "decimalExpr ?d" and d = ?d and tp = ?tp and sc = "stmtCtx True True"]
       h1 p
  show ?thesis by simp
qed

subsection \<open>The dispatchers\<close>

lemmas getFunction_defs =
  castAsInt_getFunction_def castAsReal_getFunction_def castAsDecimal_getFunction_def
  castAsString_getFunction_def castAsTime_getFunction_def castAsDuration_getFunction_def
  castAsJSON_getFunction_def verifyArgs_def

text \<open>
  C7. For an Integer target a hybrid or binary-literal source selects Int-to-Int; for a
  Real or Decimal target a binary-literal source selects Real-to-Real or
  Decimal-to-Decimal, and a hybrid source that is not a binary literal selects Int-to-Real
  or Int-to-Decimal; for a String target a hybrid or binary-literal source selects
  String-to-String; for DateTime, Duration and Json targets the declared evaluation class
  alone selects the routine, whether the source is hybrid or a binary literal or neither:
  Integer selects Int-to-target, Real selects Real-to-target, Decimal selects
  Decimal-to-target, String selects String-to-target (for a Json target with the
  parse-as-JSON flag set on the target type), DateTime and Timestamp select
  Time-to-target, Duration selects Duration-to-target and Json selects Json-to-target.
\<close>

theorem C7_dispatch_special_casing:
  fixes e e' :: "('j, 'f) Expression"
  shows "((Hybrid e \<or> IsBinaryLiteral e) \<longrightarrow>
            castAsInt_getFunction tp [e] = newSig CastIntAsInt tp)
       \<and> (IsBinaryLiteral e \<longrightarrow>
            castAsReal_getFunction tp [e] = newSig CastRealAsReal tp
          \<and> castAsDecimal_getFunction tp [e] = newSig CastDecimalAsDecimal tp)
       \<and> (Hybrid e \<and> \<not> IsBinaryLiteral e \<longrightarrow>
            castAsReal_getFunction tp [e] = newSig CastIntAsReal tp
          \<and> castAsDecimal_getFunction tp [e] = newSig CastIntAsDecimal tp)
       \<and> ((Hybrid e \<or> IsBinaryLiteral e) \<longrightarrow>
            castAsString_getFunction tp [e] = newSig CastStringAsString tp)
       \<and> (GetEvalType e = GetEvalType e' \<longrightarrow>
            castAsTime_getFunction tp [e] = castAsTime_getFunction tp [e']
          \<and> castAsDuration_getFunction tp [e] = castAsDuration_getFunction tp [e']
          \<and> castAsJSON_getFunction tp [e] = castAsJSON_getFunction tp [e'])
       \<and> (GetEvalType e = ETInt \<longrightarrow>
            castAsTime_getFunction tp [e] = newSig CastIntAsTime tp
          \<and> castAsDuration_getFunction tp [e] = newSig CastIntAsDuration tp
          \<and> castAsJSON_getFunction tp [e] = newSig CastIntAsJson tp)
       \<and> (GetEvalType e = ETReal \<longrightarrow>
            castAsTime_getFunction tp [e] = newSig CastRealAsTime tp
          \<and> castAsDuration_getFunction tp [e] = newSig CastRealAsDuration tp
          \<and> castAsJSON_getFunction tp [e] = newSig CastRealAsJson tp)
       \<and> (GetEvalType e = ETDecimal \<longrightarrow>
            castAsTime_getFunction tp [e] = newSig CastDecimalAsTime tp
          \<and> castAsDuration_getFunction tp [e] = newSig CastDecimalAsDuration tp
          \<and> castAsJSON_getFunction tp [e] = newSig CastDecimalAsJson tp)
       \<and> (GetEvalType e = ETString \<longrightarrow>
            castAsTime_getFunction tp [e] = newSig CastStringAsTime tp
          \<and> castAsDuration_getFunction tp [e] = newSig CastStringAsDuration tp
          \<and> castAsJSON_getFunction tp [e]
              = newSig CastStringAsJson (tp\<lparr>Flag := Flag tp \<union> {ParseToJSONFlag}\<rparr>))
       \<and> (GetEvalType e = ETDatetime \<or> GetEvalType e = ETTimestamp \<longrightarrow>
            castAsTime_getFunction tp [e] = newSig CastTimeAsTime tp
          \<and> castAsDuration_getFunction tp [e] = newSig CastTimeAsDuration tp
          \<and> castAsJSON_getFunction tp [e] = newSig CastTimeAsJson tp)
       \<and> (GetEvalType e = ETDuration \<longrightarrow>
            castAsTime_getFunction tp [e] = newSig CastDurationAsTime tp
          \<and> castAsDuration_getFunction tp [e] = newSig CastDurationAsDuration tp
          \<and> castAsJSON_getFunction tp [e] = newSig CastDurationAsJson tp)
       \<and> (GetEvalType e = ETJson \<longrightarrow>
            castAsTime_getFunction tp [e] = newSig CastJsonAsTime tp
          \<and> castAsDuration_getFunction tp [e] = newSig CastJsonAsDuration tp
          \<and> castAsJSON_getFunction tp [e] = newSig CastJsonAsJson tp)"
  by (auto simp: getFunction_defs)

theorem C7_dispatch_witness:
  "castAsInt_getFunction (fieldType TypeLonglong {} 20 0) [nullExpr\<lparr>Hybrid := True\<rparr>]
     = newSig CastIntAsInt (fieldType TypeLonglong {} 20 0)
   \<and> castAsReal_getFunction (fieldType TypeDouble {} 22 (- 1)) [nullExpr\<lparr>IsBinaryLiteral := True\<rparr>]
     = newSig CastRealAsReal (fieldType TypeDouble {} 22 (- 1))
   \<and> castAsDecimal_getFunction (fieldType TypeNewDecimal {} 10 2) [nullExpr\<lparr>IsBinaryLiteral := True\<rparr>]
     = newSig CastDecimalAsDecimal (fieldType TypeNewDecimal {} 10 2)
   \<and> castAsReal_getFunction (fieldType TypeDouble {} 22 (- 1)) [nullExpr\<lparr>Hybrid := True\<rparr>]
     = newSig CastIntAsReal (fieldType TypeDouble {} 22 (- 1))
   \<and> castAsDecimal_getFunction (fieldType TypeNewDecimal {} 10 2) [nullExpr\<lparr>Hybrid := True\<rparr>]
     = newSig CastIntAsDecimal (fieldType TypeNewDecimal {} 10 2)
   \<and> castAsString_getFunction (fieldType TypeVarString {} 20 (- 1)) [nullExpr\<lparr>Hybrid := True\<rparr>]
     = newSig CastStringAsString (fieldType TypeVarString {} 20 (- 1))
   \<and> castAsTime_getFunction (fieldType TypeDate {} 10 0) [nullExpr\<lparr>Hybrid := True\<rparr>]
     = newSig CastStringAsTime (fieldType TypeDate {} 10 0)
   \<and> castAsDuration_getFunction (fieldType TypeDuration {} 10 0) [nullExpr\<lparr>Hybrid := True\<rparr>]
     = newSig CastStringAsDuration (fieldType TypeDuration {} 10 0)
   \<and> castAsJSON_getFunction (fieldType TypeJSON {BinaryFlag} 12582912 0) [nullExpr\<lparr>Hybrid := True\<rparr>]
     = newSig CastStringAsJson (fieldType TypeJSON {BinaryFlag, ParseToJSONFlag} 12582912 0)
   \<and> castAsJSON_getFunction (fieldType TypeJSON {BinaryFlag} 12582912 0)
       [(intExpr 5)\<lparr>IsBinaryLiteral := True\<rparr>]
     = newSig CastIntAsJson (fieldType TypeJSON {BinaryFlag} 12582912 0)
   \<and> castAsTime_getFunction (fieldType TypeDate {} 10 0) [(intExpr 5)\<lparr>IsBinaryLiteral := True\<rparr>]
     = newSig CastIntAsTime (fieldType TypeDate {} 10 0)
   \<and> castAsDuration_getFunction (fieldType TypeDuration {} 10 0)
       [(jsonExpr (JSONInt 5))\<lparr>Hybrid := True\<rparr>]
     = newSig CastJsonAsDuration (fieldType TypeDuration {} 10 0)"
proof -
  let ?h = "nullExpr\<lparr>Hybrid := True\<rparr>"
  let ?b = "nullExpr\<lparr>IsBinaryLiteral := True\<rparr>"
  let ?i = "(intExpr 5)\<lparr>IsBinaryLiteral := True\<rparr>"
  let ?j = "(jsonExpr (JSONInt 5))\<lparr>Hybrid := True\<rparr>"
  let ?tj = "fieldType TypeJSON {BinaryFlag} 12582912 0"
  have h: "Hybrid ?h" "\<not> IsBinaryLiteral ?h" "GetEvalType ?h = ETString"
    by (simp_all add: fixture_defs)
  have b: "IsBinaryLiteral ?b" by (simp add: fixture_defs)
  have i: "GetEvalType ?i = ETInt" by (simp add: fixture_defs)
  have j: "GetEvalType ?j = ETJson" by (simp add: fixture_defs)
  have f: "?tj\<lparr>Flag := Flag ?tj \<union> {ParseToJSONFlag}\<rparr>
           = fieldType TypeJSON {BinaryFlag, ParseToJSONFlag} 12582912 0"
    by (simp add: fieldType_def insert_commute)
  from C7_dispatch_special_casing [where e = ?h and tp = "fieldType TypeLonglong {} 20 0"]
       C7_dispatch_special_casing [where e = ?b and tp = "fieldType TypeDouble {} 22 (- 1)"]
       C7_dispatch_special_casing [where e = ?b and tp = "fieldType TypeNewDecimal {} 10 2"]
       C7_dispatch_special_casing [where e = ?h and tp = "fieldType TypeDouble {} 22 (- 1)"]
       C7_dispatch_special_casing [where e = ?h and tp = "fieldType TypeNewDecimal {} 10 2"]
       C7_dispatch_special_casing [where e = ?h and tp = "fieldType TypeVarString {} 20 (- 1)"]
       C7_dispatch_special_casing [where e = ?h and tp = "fieldType TypeDate {} 10 0"]
       C7_dispatch_special_casing [where e = ?h and tp = "fieldType TypeDuration {} 10 0"]
       C7_dispatch_special_casing [where e = ?h and tp = ?tj]
       C7_dispatch_special_casing [where e = ?i and tp = ?tj]
       C7_dispatch_special_casing [where e = ?i and tp = "fieldType TypeDate {} 10 0"]
       C7_dispatch_special_casing [where e = ?j and tp = "fieldType TypeDuration {} 10 0"]
       h b i j f
  show ?thesis by simp
qed

subsection \<open>Duration targets\<close>

text \<open>
  C1. When \<open>ParseDuration\<close> gives the literal zero duration together with
  \<open>ErrTruncatedWrongVal\<close>, the String and the Decimal source return SQL NULL
  (\<open>isNull\<close> true), but the Json source returns the zero duration with \<open>isNull\<close> false.
\<close>

theorem C1_json_truncated_zero_duration_is_not_null:
  fixes argS argD argJ :: "('j, 'f) Expression"
  assumes "ParseDuration s (Decimal tp) = (ZeroDuration, Some (Err ErrTruncatedWrongVal a))"
    and "ParseDuration (ToString dv) (Decimal tp)
           = (ZeroDuration, Some (Err ErrTruncatedWrongVal b))"
    and "EvalString argS = (s, False, None)"
    and "EvalDecimal argD = (dv, False, None)"
    and "EvalJSON argJ = (j, False, None)" and "Unquote j = (s, None)"
  shows "out_isNull (builtinCastStringAsDurationSig_evalDuration ParseDuration tp argS sc)
       \<and> out_isNull (builtinCastDecimalAsDurationSig_evalDuration ParseDuration ToString tp argD sc)
       \<and> \<not> out_isNull (builtinCastJSONAsDurationSig_evalDuration ParseDuration Unquote tp argJ sc)
       \<and> out_res (builtinCastJSONAsDurationSig_evalDuration ParseDuration Unquote tp argJ sc)
           = ZeroDuration"
  using assms
  by (simp add: builtinCastStringAsDurationSig_evalDuration_def
        builtinCastDecimalAsDurationSig_evalDuration_def
        builtinCastJSONAsDurationSig_evalDuration_def Return_def split: prod.splits)

theorem C1_json_duration_witness:
  "types_ParseDuration ''abc'' 0 = (ZeroDuration, Some (Err ErrTruncatedWrongVal [''time'', ''abc'']))
   \<and> out_isNull (builtinCastStringAsDurationSig_evalDuration types_ParseDuration
                   (fieldType TypeDuration {} 10 0) (stringExpr ''abc'') (stmtCtx True True))
   \<and> out_isNull (builtinCastDecimalAsDurationSig_evalDuration types_ParseDuration types_ToString
                   (fieldType TypeDuration {} 10 0)
                   (decimalExpr \<lparr>dec_unscaled = 9999, dec_frac = 0\<rparr>) (stmtCtx True True))
   \<and> \<not> out_isNull (builtinCastJSONAsDurationSig_evalDuration types_ParseDuration json_Unquote
                     (fieldType TypeDuration {} 10 0) (jsonExpr (JSONString ''abc''))
                     (stmtCtx True True))
   \<and> out_res (builtinCastJSONAsDurationSig_evalDuration types_ParseDuration json_Unquote
                (fieldType TypeDuration {} 10 0) (jsonExpr (JSONString ''abc''))
                (stmtCtx True True))
     = ZeroDuration"
proof -
  let ?tp = "fieldType TypeDuration {} 10 0"
  let ?dv = "\<lparr>dec_unscaled = 9999, dec_frac = 0\<rparr>"
  have d: "Decimal ?tp = 0" by (simp add: fieldType_def)
  have p: "types_ParseDuration ''abc'' 0
           = (ZeroDuration, Some (Err ErrTruncatedWrongVal [''time'', ''abc'']))"
    by (simp add: types_ParseDuration_def parseHMS_def isDigit_def)
  have h1: "types_ParseDuration ''abc'' (Decimal ?tp)
            = (ZeroDuration, Some (Err ErrTruncatedWrongVal [''time'', ''abc'']))"
    using p d by simp
  have t: "types_ToString ?dv = ''9999''"
    by (simp add: types_ToString_def FormatUint.simps digitChar_def)
  have h2: "types_ParseDuration (types_ToString ?dv) (Decimal ?tp)
            = (ZeroDuration, Some (Err ErrTruncatedWrongVal [''time'', ''9999'']))"
    using t d by (simp add: types_ParseDuration_def parseHMS_def isDigit_def digitsValue_def)
  have h3: "EvalString (stringExpr ''abc'') = (''abc'', False, None)" by (simp add: fixture_defs)
  have h4: "EvalDecimal (decimalExpr ?dv) = (?dv, False, None)" by (simp add: fixture_defs)
  have h5: "EvalJSON (jsonExpr (JSONString ''abc'')) = (JSONString ''abc'', False, None)"
    by (simp add: fixture_defs)
  have h6: "json_Unquote (JSONString ''abc'') = (''abc'', None)" by simp
  from C1_json_truncated_zero_duration_is_not_null
         [where ParseDuration = types_ParseDuration and ToString = types_ToString
            and Unquote = json_Unquote and sc = "stmtCtx True True",
          OF h1 h2 h3 h4 h5 h6]
       p
  show ?thesis by simp
qed

subsection \<open>DateTime targets\<close>

lemma date_target_zeroes_time_of_day:
  fixes arg :: "('j, 'f) Expression"
  assumes "Tp tp = TypeDate"
  shows "out_err (builtinCastIntAsTimeSig_evalTime ParseTimeFromNum tp arg sc) = None
           \<and> \<not> out_isNull (builtinCastIntAsTimeSig_evalTime ParseTimeFromNum tp arg sc)
         \<longrightarrow> timeOfDayIsZero (out_res (builtinCastIntAsTimeSig_evalTime ParseTimeFromNum tp arg sc))"
    and "out_err (builtinCastRealAsTimeSig_evalTime ParseTime FormatFloat tp arg sc) = None
           \<and> \<not> out_isNull (builtinCastRealAsTimeSig_evalTime ParseTime FormatFloat tp arg sc)
         \<longrightarrow> timeOfDayIsZero
               (out_res (builtinCastRealAsTimeSig_evalTime ParseTime FormatFloat tp arg sc))"
    and "out_err (builtinCastDecimalAsTimeSig_evalTime ParseTime ToString tp arg sc) = None
           \<and> \<not> out_isNull (builtinCastDecimalAsTimeSig_evalTime ParseTime ToString tp arg sc)
         \<longrightarrow> timeOfDayIsZero
               (out_res (builtinCastDecimalAsTimeSig_evalTime ParseTime ToString tp arg sc))"
    and "out_err (builtinCastStringAsTimeSig_evalTime ParseTime tp arg sc) = None
           \<and> \<not> out_isNull (builtinCastStringAsTimeSig_evalTime ParseTime tp arg sc)
         \<longrightarrow> timeOfDayIsZero (out_res (builtinCastStringAsTimeSig_evalTime ParseTime tp arg sc))"
    and "out_err (builtinCastTimeAsTimeSig_evalTime Convert RoundFrac tp arg sc) = None
           \<and> \<not> out_isNull (builtinCastTimeAsTimeSig_evalTime Convert RoundFrac tp arg sc)
         \<longrightarrow> timeOfDayIsZero
               (out_res (builtinCastTimeAsTimeSig_evalTime Convert RoundFrac tp arg sc))"
    and "out_err (builtinCastJSONAsTimeSig_evalTime ParseTime Unquote tp arg sc) = None
           \<and> \<not> out_isNull (builtinCastJSONAsTimeSig_evalTime ParseTime Unquote tp arg sc)
         \<longrightarrow> timeOfDayIsZero
               (out_res (builtinCastJSONAsTimeSig_evalTime ParseTime Unquote tp arg sc))"
  using assms
  by (auto simp: builtinCastIntAsTimeSig_evalTime_def builtinCastRealAsTimeSig_evalTime_def
        builtinCastDecimalAsTimeSig_evalTime_def builtinCastStringAsTimeSig_evalTime_def
        builtinCastTimeAsTimeSig_evalTime_def builtinCastJSONAsTimeSig_evalTime_def
        timeOfDayIsZero_def truncateToDate_def FromDate_def ZeroTime_def Return_def
      split: prod.splits if_splits)

text \<open>
  C2. The Duration source returns what \<open>RoundFrac\<close> gives on the time that
  \<open>ConvertToTime\<close> anchored to the current date, also for a DATE target: the routine has
  no step that zeroes the time of day, which every other source has
  (\<open>date_target_zeroes_time_of_day\<close>).
\<close>

theorem C2_duration_to_date_keeps_time_of_day:
  fixes arg :: "('j, 'f) Expression"
  assumes "EvalDuration arg = (d, False, None)"
    and "ConvertToTime d sc (Tp tp) = (t, None, scC)"
    and "RoundFrac t scC (Decimal tp) = (t', rerr, scR)"
  shows "builtinCastDurationAsTimeSig_evalTime ConvertToTime RoundFrac tp arg sc
           = Return t' False rerr scR"
  using assms by (simp add: builtinCastDurationAsTimeSig_evalTime_def)

theorem C2_duration_to_date_witness:
  "Tp (fieldType TypeDate {} 10 0) = TypeDate
   \<and> out_err (builtinCastDurationAsTimeSig_evalTime (types_ConvertToTime (2023, 6, 15))
                types_RoundFrac (fieldType TypeDate {} 10 0)
                (durationExpr \<lparr>dur_Duration = 45000000000000, dur_Fsp = 0\<rparr>) (stmtCtx True True))
     = None
   \<and> \<not> out_isNull (builtinCastDurationAsTimeSig_evalTime (types_ConvertToTime (2023, 6, 15))
                types_RoundFrac (fieldType TypeDate {} 10 0)
                (durationExpr \<lparr>dur_Duration = 45000000000000, dur_Fsp = 0\<rparr>) (stmtCtx True True))
   \<and> Time_Time (out_res (builtinCastDurationAsTimeSig_evalTime (types_ConvertToTime (2023, 6, 15))
                types_RoundFrac (fieldType TypeDate {} 10 0)
                (durationExpr \<lparr>dur_Duration = 45000000000000, dur_Fsp = 0\<rparr>) (stmtCtx True True)))
     = FromDate 2023 6 15 12 30 0 0
   \<and> \<not> timeOfDayIsZero
         (out_res (builtinCastDurationAsTimeSig_evalTime (types_ConvertToTime (2023, 6, 15))
                types_RoundFrac (fieldType TypeDate {} 10 0)
                (durationExpr \<lparr>dur_Duration = 45000000000000, dur_Fsp = 0\<rparr>) (stmtCtx True True)))"
proof -
  let ?tp = "fieldType TypeDate {} 10 0"
  let ?d = "\<lparr>dur_Duration = 45000000000000, dur_Fsp = 0\<rparr>"
  let ?sc = "stmtCtx True True"
  let ?t = "\<lparr>Time_Time = FromDate 2023 6 15 12 30 0 0, Time_Type = TypeDate, Time_Fsp = 0\<rparr>"
  have h1: "EvalDuration (durationExpr ?d) = (?d, False, None)" by (simp add: fixture_defs)
  have h2: "types_ConvertToTime (2023, 6, 15) ?d ?sc (Tp ?tp) = (?t, None, ?sc)"
    by (simp add: types_ConvertToTime_def fieldType_def)
  have h3: "types_RoundFrac ?t ?sc (Decimal ?tp) = (?t, None, ?sc)"
    by (simp add: types_RoundFrac_def fieldType_def FromDate_def)
  have h5: "Tp ?tp = TypeDate" by (simp add: fieldType_def)
  have z: "\<not> timeOfDayIsZero ?t" by (simp add: timeOfDayIsZero_def FromDate_def)
  from C2_duration_to_date_keeps_time_of_day
         [where ConvertToTime = "types_ConvertToTime (2023, 6, 15)" and RoundFrac = types_RoundFrac
            and sc = ?sc and tp = ?tp, OF h1 h2 h3]
       h5 z
  show ?thesis by (simp add: Return_def)
qed

subsection \<open>Json sources to String and Decimal targets\<close>

lemma string_targets_clamp_to_display_length:
  fixes arg :: "('j, 'f) Expression"
  shows "EvalInt arg = (i, False, None) \<and> \<not> HasUnsignedFlag (GetFlag arg) \<longrightarrow>
           out_res (builtinCastIntAsStringSig_evalString ProduceStrWithSpecifiedTp ConvertIntToUint
                      tp arg sc)
             = fst (ProduceStrWithSpecifiedTp (FormatInt (sint i)) tp sc)"
    and "EvalDecimal arg = (dv, False, None) \<longrightarrow>
           out_res (builtinCastDecimalAsStringSig_evalString ProduceStrWithSpecifiedTp ToString
                      tp arg sc)
             = fst (ProduceStrWithSpecifiedTp (ToString dv) tp sc)"
    and "EvalTime arg = (t, False, None) \<longrightarrow>
           out_res (builtinCastTimeAsStringSig_evalString ProduceStrWithSpecifiedTp Time_String
                      tp arg sc)
             = fst (ProduceStrWithSpecifiedTp (Time_String t) tp sc)"
    and "EvalDuration arg = (du, False, None) \<longrightarrow>
           out_res (builtinCastDurationAsStringSig_evalString ProduceStrWithSpecifiedTp
                      Duration_String tp arg sc)
             = fst (ProduceStrWithSpecifiedTp (Duration_String du) tp sc)"
  by (simp_all add: builtinCastIntAsStringSig_evalString_def
        builtinCastDecimalAsStringSig_evalString_def builtinCastTimeAsStringSig_evalString_def
        builtinCastDurationAsStringSig_evalString_def Return_def split: prod.splits)

lemma decimal_targets_adjust_precision:
  fixes arg :: "('j, 'f) Expression"
  shows "\<not> IsBinaryLiteral arg \<and> EvalString arg = (s, False, None)
           \<and> FromString s = (dv, None) \<longrightarrow>
           out_res (builtinCastStringAsDecimalSig_evalDecimal ProduceDecWithSpecifiedTp FromString
                      tp arg sc)
             = fst (ProduceDecWithSpecifiedTp dv tp sc)"
    and "EvalTime arg = (t, False, None) \<longrightarrow>
           out_res (builtinCastTimeAsDecimalSig_evalDecimal ProduceDecWithSpecifiedTp Time_ToNumber
                      tp arg sc)
             = fst (ProduceDecWithSpecifiedTp (Time_ToNumber t) tp sc)"
    and "EvalDuration arg = (du, False, None) \<longrightarrow>
           out_res (builtinCastDurationAsDecimalSig_evalDecimal ProduceDecWithSpecifiedTp
                      Duration_ToNumber tp arg sc)
             = fst (ProduceDecWithSpecifiedTp (Duration_ToNumber du) tp sc)"
  by (simp_all add: builtinCastStringAsDecimalSig_evalDecimal_def
        builtinCastTimeAsDecimalSig_evalDecimal_def builtinCastDurationAsDecimalSig_evalDecimal_def
        Return_def split: prod.splits)

lemma identity_routines_return_the_view:
  fixes arg :: "('j, 'f) Expression"
  shows "builtinCastIntAsIntSig_evalInt arg sc
           = Return (fst (EvalInt arg)) (fst (snd (EvalInt arg))) (snd (snd (EvalInt arg))) sc"
    and "builtinCastJSONAsJSONSig_evalJSON arg sc
           = Return (fst (EvalJSON arg)) (fst (snd (EvalJSON arg))) (snd (snd (EvalJSON arg))) sc"
  by (simp_all add: builtinCastIntAsIntSig_evalInt_def builtinCastJSONAsJSONSig_evalJSON_def
        split: prod.splits)

text \<open>
  C4. The Json-to-String routine returns the serialization of the JSON value as it is, and
  the Json-to-Decimal routine returns the decimal of the float as it is: neither result
  depends on the target type, so neither is clamped to the display length or adjusted to
  the precision, which the String-to-String and Decimal-to-Decimal routines do by
  \<open>ProduceStrWithSpecifiedTp\<close> and \<open>ProduceDecWithSpecifiedTp\<close>, as the other sources do
  (\<open>string_targets_clamp_to_display_length\<close>, \<open>decimal_targets_adjust_precision\<close>).
\<close>

theorem C4_json_results_are_not_post_processed:
  fixes arg argS argD :: "('j, 'f) Expression"
  assumes "EvalJSON arg = (j, False, None)"
    and "ConvertJSONToFloat sc j = (f, None, scF)"
    and "FromFloat f = (d, ferr)"
    and "EvalString argS = (s, False, None)"
    and "EvalDecimal argD = (dv, False, None)"
  shows "builtinCastJSONAsStringSig_evalString JSON_String tp arg sc
           = Return (JSON_String j) False None sc
       \<and> builtinCastJSONAsDecimalSig_evalDecimal ConvertJSONToFloat FromFloat tp arg sc
           = Return (Some d) False ferr scF
       \<and> out_res (builtinCastStringAsStringSig_evalString ProduceStrWithSpecifiedTp tp argS sc)
           = fst (ProduceStrWithSpecifiedTp s tp sc)
       \<and> out_res (builtinCastDecimalAsDecimalSig_evalDecimal ProduceDecWithSpecifiedTp tp argD sc)
           = fst (ProduceDecWithSpecifiedTp dv tp sc)"
  using assms
  by (simp add: builtinCastJSONAsStringSig_evalString_def
        builtinCastJSONAsDecimalSig_evalDecimal_def builtinCastStringAsStringSig_evalString_def
        builtinCastDecimalAsDecimalSig_evalDecimal_def Return_def split: prod.splits)

theorem C4_json_results_witness:
  "out_res (builtinCastJSONAsStringSig_evalString json_String (fieldType TypeVarString {} 3 (- 1))
              (jsonExpr (JSONInt 12345)) (stmtCtx True True))
     = ''12345''
   \<and> out_res (builtinCastStringAsStringSig_evalString types_ProduceStrWithSpecifiedTp
                (fieldType TypeVarString {} 3 (- 1)) (stringExpr ''12345'') (stmtCtx True True))
     = ''123''
   \<and> out_res (builtinCastJSONAsDecimalSig_evalDecimal json_ConvertJSONToFloat types_FromFloat64
                (fieldType TypeNewDecimal {} 3 0) (jsonExpr (JSONInt 12345)) (stmtCtx True True))
     = Some \<lparr>dec_unscaled = 12345, dec_frac = 0\<rparr>
   \<and> out_res (builtinCastDecimalAsDecimalSig_evalDecimal types_ProduceDecWithSpecifiedTp
                (fieldType TypeNewDecimal {} 3 0)
                (decimalExpr \<lparr>dec_unscaled = 12345, dec_frac = 0\<rparr>) (stmtCtx True True))
     = Some \<lparr>dec_unscaled = 999, dec_frac = 0\<rparr>"
proof -
  let ?sc = "stmtCtx True True"
  let ?dv = "\<lparr>dec_unscaled = 12345, dec_frac = 0\<rparr>"
  have b1: "EvalJSON (jsonExpr (JSONInt 12345)) = (JSONInt 12345, False, None)"
    by (simp add: fixture_defs)
  have b2: "json_ConvertJSONToFloat ?sc (JSONInt 12345) = (12345, None, ?sc)" by simp
  have b3: "types_FromFloat64 12345 = (?dv, None)" by (simp add: types_FromFloat64_def)
  have s: "EvalString (stringExpr ''12345'') = (''12345'', False, None)"
    by (simp add: fixture_defs)
  have d: "EvalDecimal (decimalExpr ?dv) = (?dv, False, None)" by (simp add: fixture_defs)
  have js: "json_String (JSONInt 12345) = ''12345''"
    by (simp add: FormatInt_def FormatUint.simps digitChar_def)
  have ps: "fst (types_ProduceStrWithSpecifiedTp ''12345'' (fieldType TypeVarString {} 3 (- 1)) ?sc)
            = ''123''"
    by (simp add: types_ProduceStrWithSpecifiedTp_def fieldType_def stmtCtx_def split: prod.splits)
  have pd: "fst (types_ProduceDecWithSpecifiedTp ?dv (fieldType TypeNewDecimal {} 3 0) ?sc)
            = Some \<lparr>dec_unscaled = 999, dec_frac = 0\<rparr>"
    by (simp add: types_ProduceDecWithSpecifiedTp_def decimal_defs fieldType_def)
  from C4_json_results_are_not_post_processed
         [where JSON_String = json_String and ConvertJSONToFloat = json_ConvertJSONToFloat
            and FromFloat = types_FromFloat64
            and ProduceStrWithSpecifiedTp = types_ProduceStrWithSpecifiedTp
            and ProduceDecWithSpecifiedTp = types_ProduceDecWithSpecifiedTp
            and sc = ?sc and tp = "fieldType TypeVarString {} 3 (- 1)",
          OF b1 b2 b3 s d]
       C4_json_results_are_not_post_processed
         [where JSON_String = json_String and ConvertJSONToFloat = json_ConvertJSONToFloat
            and FromFloat = types_FromFloat64
            and ProduceStrWithSpecifiedTp = types_ProduceStrWithSpecifiedTp
            and ProduceDecWithSpecifiedTp = types_ProduceDecWithSpecifiedTp
            and sc = ?sc and tp = "fieldType TypeNewDecimal {} 3 0",
          OF b1 b2 b3 s d]
       js ps pd
  show ?thesis by (simp add: Return_def)
qed

end
